theory Spec2Isabelle
  imports Complex_Main "HOL-Library.AList"
begin

section \<open>The Tungsten scene exporter (scene.py)\<close>

text \<open>
  A shallow embedding of \<^verbatim>\<open>scene.py\<close>: the export operator \<^verbatim>\<open>W_OT_export\<close> and the
  export session \<^verbatim>\<open>TungstenScene\<close>. Every method of the session becomes a function
  from a state to a result and a new state; a Python exception is the result \<open>Inl e\<close>,
  returned together with the state the exception leaves behind. The timing calls and the
  diagnostic \<^verbatim>\<open>print\<close>s of the source have no effect on the session and are left out.
\<close>

subsection \<open>Python values\<close>

text \<open>
  The manifest is built from JSON-serialisable Python values. A Python \<^verbatim>\<open>dict\<close> keeps
  its keys in insertion order and holds each key once: it is an association list with
  distinct keys. A Python \<^verbatim>\<open>float\<close> is a real number (every double is one); where the
  source rounds, in the two operations that scale the resolution, the rounded operation is
  taken from the environment.
\<close>

datatype json =
    JNull
  | JBool bool
  | JInt int
  | JNum real
  | JStr string
  | JList "json list"
  | JObj "(string \<times> json) list"

type_synonym dict = "(string \<times> json) list"

text \<open>\<^verbatim>\<open>d[k] = v\<close>: an existing key keeps its place, a new key goes last.\<close>

definition dict_set :: "('k \<times> 'v) list \<Rightarrow> 'k \<Rightarrow> 'v \<Rightarrow> ('k \<times> 'v) list" where
  "dict_set d k v = AList.update k v d"

text \<open>\<^verbatim>\<open>d.update(e)\<close>: the items of \<open>e\<close> are stored into \<open>d\<close> one after the other.\<close>

definition dict_update :: "('k \<times> 'v) list \<Rightarrow> ('k \<times> 'v) list \<Rightarrow> ('k \<times> 'v) list" where
  "dict_update d e = fold (\<lambda>kv acc. dict_set acc (fst kv) (snd kv)) e d"

text \<open>\<^verbatim>\<open>k in d\<close> and \<^verbatim>\<open>d[k]\<close> (after the membership test) are \<open>map_of d k\<close>.\<close>

definition dict_get :: "('k \<times> 'v) list \<Rightarrow> 'k \<Rightarrow> 'v option" where
  "dict_get d k = map_of d k"

text \<open>Python's \<^verbatim>\<open>int(x)\<close> on a float truncates towards zero.\<close>

definition py_int :: "real \<Rightarrow> int" where
  "py_int x = (if 0 \<le> x then \<lfloor>x\<rfloor> else \<lceil>x\<rceil>)"

datatype error =
    AttributeError
  | OSError
  | Raised string

subsection \<open>mathutils: 4x4 matrices\<close>

text \<open>
  \<^verbatim>\<open>mathutils.Matrix\<close> values of size 4, as four rows of four entries. \<open>mat_mul\<close> is
  the matrix product (the \<^verbatim>\<open>*\<close> of the source), and \<open>Matrix_Scale\<close> is
  \<^verbatim>\<open>Matrix.Scale(factor, 4, axis)\<close>: the axis is normalised and the upper-left 3x3 block is
  the identity plus \<open>(factor - 1)\<close> times the outer product of the axis with itself. The
  source multiplies by the scales of -1 along a coordinate axis only; their entries are 0,
  1 and -1, so that no product or sum of the matrix product rounds.
\<close>

type_synonym vec4 = "real \<times> real \<times> real \<times> real"
type_synonym mat4 = "vec4 \<times> vec4 \<times> vec4 \<times> vec4"

definition vec_list :: "vec4 \<Rightarrow> real list" where
  "vec_list v = (case v of (a, b, c, d) \<Rightarrow> [a, b, c, d])"

definition mat_rows :: "mat4 \<Rightarrow> vec4 list" where
  "mat_rows m = (case m of (r0, r1, r2, r3) \<Rightarrow> [r0, r1, r2, r3])"

definition dot4 :: "vec4 \<Rightarrow> vec4 \<Rightarrow> real" where
  "dot4 u v = (case u of (a, b, c, d) \<Rightarrow> case v of (e, f, g, h) \<Rightarrow> a * e + b * f + c * g + d * h)"

definition mat_col :: "mat4 \<Rightarrow> nat \<Rightarrow> vec4" where
  "mat_col m j = (case m of (r0, r1, r2, r3) \<Rightarrow>
     (vec_list r0 ! j, vec_list r1 ! j, vec_list r2 ! j, vec_list r3 ! j))"

definition row_mul :: "vec4 \<Rightarrow> mat4 \<Rightarrow> vec4" where
  "row_mul r m = (dot4 r (mat_col m 0), dot4 r (mat_col m 1), dot4 r (mat_col m 2), dot4 r (mat_col m 3))"

definition mat_mul :: "mat4 \<Rightarrow> mat4 \<Rightarrow> mat4" where
  "mat_mul a b = (case a of (r0, r1, r2, r3) \<Rightarrow>
     (row_mul r0 b, row_mul r1 b, row_mul r2 b, row_mul r3 b))"

definition Matrix_Scale :: "real \<Rightarrow> real \<times> real \<times> real \<Rightarrow> mat4" where
  "Matrix_Scale factor axis = (case axis of (x0, y0, z0) \<Rightarrow>
     let n = sqrt (x0 * x0 + y0 * y0 + z0 * z0);
         x = x0 / n; y = y0 / n; z = z0 / n;
         f = factor - 1
     in ((1 + f * (x * x), f * (x * y), f * (x * z), 0),
         (f * (x * y), 1 + f * (y * y), f * (y * z), 0),
         (f * (x * z), f * (y * z), 1 + f * (z * z), 0),
         (0, 0, 0, 1)))"

subsection \<open>The host scene\<close>

text \<open>
  The parts of Blender's data the exporter reads. A material and an image carry their
  name, which the session uses as cache key, and an identity \<open>ident\<close>: two datablocks may
  share a name. An attribute that may be \<^verbatim>\<open>None\<close> is an option.
\<close>

record material =
  m_name :: string
  m_ident :: nat

record image =
  im_name :: string
  im_ident :: nat
  im_source :: string
  file_format :: string
  filepath :: string
  filepath_raw :: string
  library :: "string option"

record object =
  o_name :: string
  o_type :: string
  matrix_world :: mat4
  material_slots :: "material option list"

record world_ent =
  w_name :: string

record render_settings =
  resolution_x :: int
  resolution_y :: int
  resolution_percentage :: int

record host_scene =
  world :: "world_ent option"
  camera :: "object option"
  objects :: "object list"
  render :: render_settings

subsection \<open>The document, the file system and the session\<close>

text \<open>\<^verbatim>\<open>self.scene\<close>: the manifest under construction, one field per key.\<close>

record document =
  media :: "json list"
  bsdfs :: "dict list"
  primitives :: "dict list"
  camera_rec :: dict
  integrator :: dict
  renderer :: dict

text \<open>
  What a file holds: the manifest written by \<^verbatim>\<open>save\<close>, an image saved by Blender (the
  image's name and the encoding it was written in), an archive written by \<^verbatim>\<open>to_zip\<close>
  (its compression flag and its entries, a directory entry holding \<open>None\<close>), or anything
  else (a mesh file, a file that was there before).
\<close>

datatype content =
    Manifest document
  | ImageData string string
  | ZipData bool "(string \<times> content option) list"
  | Blob string

datatype node = Dir | File content

text \<open>
  The file system: the paths that exist, in listing order, with what is there.
\<close>

type_synonym fsys = "(string \<times> node) list"

text \<open>
  The state every method works on: the attributes of the \<^verbatim>\<open>TungstenScene\<close> object
  (\<open>dir\<close> to \<open>default_mat\<close>), the file system \<open>fs\<close> the session writes into, and
  \<open>render_file_format\<close>, the host's
  \<^verbatim>\<open>bpy.context.scene.render.image_settings.file_format\<close>, which \<^verbatim>\<open>_save_image_as\<close>
  sets and restores.
\<close>

record state =
  dir :: string
  clean_on_del :: bool
  self_contained :: bool
  scene :: document
  mats :: "(string \<times> dict) list"
  images :: "(string \<times> string) list"
  scenefile :: string
  default_mat :: string
  fs :: fsys
  render_file_format :: string

text \<open>
  What the exporter calls and this file does not define. The five converters
  (\<^verbatim>\<open>W_PT_renderer.to_scene_data\<close> and its siblings) receive the session and may change
  it, so each maps a state to a result and a state; \<^verbatim>\<open>write_object_mesh\<close> receives no
  session and works on the file system only. \<open>abspath\<close> is \<^verbatim>\<open>bpy.path.abspath\<close> (the
  path and the optional library), \<open>relpath\<close> is \<^verbatim>\<open>os.path.relpath\<close> with \<open>None\<close> for
  its \<^verbatim>\<open>ValueError\<close>, \<open>write_fails\<close> tells the paths at which creating or writing a file
  fails, and \<open>mkdtemp_name\<close> is the name \<^verbatim>\<open>tempfile.mkdtemp(suffix='w')\<close> chooses.
  \<open>float_div\<close> and \<open>float_mul\<close> are the division and the multiplication of Python
  floats, which round their result to a double.
\<close>

record env =
  W_PT_renderer :: "host_scene \<Rightarrow> state \<Rightarrow> (error + dict) \<times> state"
  W_PT_integrator :: "host_scene \<Rightarrow> state \<Rightarrow> (error + dict) \<times> state"
  W_PT_world :: "world_ent \<Rightarrow> state \<Rightarrow> (error + dict) \<times> state"
  W_PT_camera :: "object \<Rightarrow> state \<Rightarrow> (error + dict) \<times> state"
  W_PT_material :: "material \<Rightarrow> state \<Rightarrow> (error + dict \<times> dict option) \<times> state"
  write_object_mesh :: "host_scene \<Rightarrow> object \<Rightarrow> string \<Rightarrow> fsys \<Rightarrow> (error + nat \<times> nat) \<times> fsys"
  abspath :: "string \<Rightarrow> string option \<Rightarrow> string"
  relpath :: "string \<Rightarrow> string \<Rightarrow> string option"
  write_fails :: "string \<Rightarrow> bool"
  mkdtemp_name :: "fsys \<Rightarrow> string"
  float_div :: "real \<Rightarrow> real \<Rightarrow> real"
  float_mul :: "real \<Rightarrow> real \<Rightarrow> real"

subsection \<open>os.path and shutil\<close>

definition os_path_join :: "string \<Rightarrow> string \<Rightarrow> string" where
  "os_path_join a b =
     (if b \<noteq> [] \<and> hd b = CHR ''/'' then b
      else if a = [] \<or> last a = CHR ''/'' then a @ b
      else a @ ''/'' @ b)"

definition os_path_exists :: "fsys \<Rightarrow> string \<Rightarrow> bool" where
  "os_path_exists f p = (p \<noteq> [] \<and> map_of f p \<noteq> None)"

definition os_path_isfile :: "fsys \<Rightarrow> string \<Rightarrow> bool" where
  "os_path_isfile f p = (case map_of f p of Some (File c) \<Rightarrow> True | _ \<Rightarrow> False)"

definition os_path_isdir :: "fsys \<Rightarrow> string \<Rightarrow> bool" where
  "os_path_isdir f p = (map_of f p = Some Dir)"

text \<open>The paths below a directory: those that extend the directory's name and a separator.\<close>

definition dirsep :: "string \<Rightarrow> string" where
  "dirsep d = (if d \<noteq> [] \<and> last d = CHR ''/'' then d else d @ ''/'')"

definition under :: "string \<Rightarrow> string \<Rightarrow> bool" where
  "under d p = (length (dirsep d) < length p \<and> take (length (dirsep d)) p = dirsep d)"

text \<open>
  \<^verbatim>\<open>shutil.rmtree(d)\<close> removes the directory and everything below it. On a path that is not
  a directory it raises; the only caller is \<^verbatim>\<open>__del__\<close>, where Python discards the
  exception, so nothing is removed then.
\<close>

definition rmtree :: "string \<Rightarrow> fsys \<Rightarrow> fsys" where
  "rmtree d f = (if os_path_isdir f d then filter (\<lambda>e. fst e \<noteq> d \<and> \<not> under d (fst e)) f else f)"

text \<open>Creating or overwriting the file at a path.\<close>

definition write_file :: "env \<Rightarrow> string \<Rightarrow> content \<Rightarrow> fsys \<Rightarrow> error + fsys" where
  "write_file H p c f = (if write_fails H p then Inl OSError else Inr (dict_set f p (File c)))"

text \<open>\<^verbatim>\<open>os.mkdir\<close>.\<close>

definition os_mkdir :: "env \<Rightarrow> string \<Rightarrow> fsys \<Rightarrow> error + fsys" where
  "os_mkdir H p f =
     (if p = [] \<or> write_fails H p \<or> map_of f p \<noteq> None then Inl OSError else Inr (f @ [(p, Dir)]))"

subsection \<open>TungstenScene: construction, teardown, persistence\<close>

definition renderer_defaults :: dict where
  "renderer_defaults =
     [(''output_file'', JStr ''scene.png''),
      (''overwrite_output_files'', JBool True),
      (''enable_resume_render'', JBool False),
      (''checkpoint_interval'', JInt 0)]"

definition default_bsdf :: "string \<Rightarrow> dict" where
  "default_bsdf nm = [(''name'', JStr nm), (''type'', JStr ''lambert''), (''albedo'', JNum (8 / 10))]"

text \<open>
  \<^verbatim>\<open>__init__(clean_on_del=True, self_contained=False, path=None)\<close>, on the file system
  \<open>f\<close> and with the host's image format setting \<open>ff\<close>. With no path the directory is the
  one \<^verbatim>\<open>mkdtemp\<close> makes; a given path is made when it does not exist. The two flags are
  independent of the path.
\<close>

definition init :: "env \<Rightarrow> bool \<Rightarrow> bool \<Rightarrow> string option \<Rightarrow> fsys \<Rightarrow> string \<Rightarrow> error + state" where
  "init H cod sc pth f ff =
     (case (case pth of
              None \<Rightarrow> Inr (mkdtemp_name H f, f @ [(mkdtemp_name H f, Dir)])
            | Some p \<Rightarrow>
                if \<not> os_path_exists f p
                then (case os_mkdir H p f of Inl e \<Rightarrow> Inl e | Inr f' \<Rightarrow> Inr (p, f'))
                else Inr (p, f)) of
        Inl e \<Rightarrow> Inl e
      | Inr (d, f') \<Rightarrow>
          let doc = \<lparr>media = [], bsdfs = [], primitives = [], camera_rec = [],
                     integrator = [], renderer = renderer_defaults\<rparr>;
              dm = ''__default_mat''
          in Inr \<lparr>dir = d, clean_on_del = cod, self_contained = sc,
                  scene = doc\<lparr>bsdfs := bsdfs doc @ [default_bsdf dm]\<rparr>,
                  mats = [], images = [],
                  scenefile = os_path_join d ''scene.json'',
                  default_mat = dm, fs = f', render_file_format = ff\<rparr>)"

text \<open>\<^verbatim>\<open>__del__\<close>.\<close>

definition del_scene :: "state \<Rightarrow> state" where
  "del_scene s = (if clean_on_del s then s\<lparr>fs := rmtree (dir s) (fs s)\<rparr> else s)"

text \<open>\<^verbatim>\<open>path(self, *args)\<close>, which the source calls with one argument.\<close>

definition path :: "state \<Rightarrow> string \<Rightarrow> string" where
  "path s x = os_path_join (dir s) x"

text \<open>\<^verbatim>\<open>save\<close>: the manifest is the document as it stands.\<close>

definition save :: "env \<Rightarrow> state \<Rightarrow> (error + unit) \<times> state" where
  "save H s =
     (case write_file H (scenefile s) (Manifest (scene s)) (fs s) of
        Inl e \<Rightarrow> (Inl e, s)
      | Inr f \<Rightarrow> (Inr (), s\<lparr>fs := f\<rparr>))"

text \<open>
  \<^verbatim>\<open>to_zip\<close>: one archive entry for every path below the working directory, named by
  the path relative to it; the walk is taken in listing order.
\<close>

definition zip_entries :: "string \<Rightarrow> fsys \<Rightarrow> (string \<times> content option) list" where
  "zip_entries d f =
     map (\<lambda>e. (drop (length (dirsep d)) (fst e), case snd e of Dir \<Rightarrow> None | File c \<Rightarrow> Some c))
       (filter (\<lambda>e. under d (fst e)) f)"

definition to_zip :: "env \<Rightarrow> string \<Rightarrow> bool \<Rightarrow> state \<Rightarrow> (error + unit) \<times> state" where
  "to_zip H outpath compress s =
     (case write_file H outpath (ZipData compress (zip_entries (dir s) (fs s))) (fs s) of
        Inl e \<Rightarrow> (Inl e, s)
      | Inr f \<Rightarrow> (Inr (), s\<lparr>fs := f\<rparr>))"

subsection \<open>Images\<close>

text \<open>
  Blender's \<^verbatim>\<open>Image.save()\<close> writes the image to its \<^verbatim>\<open>filepath_raw\<close> in its own
  format; \<^verbatim>\<open>Image.save_render(filepath, scene)\<close> writes it to \<open>filepath\<close> in the format
  of the scene's render settings.
\<close>

definition image_save :: "env \<Rightarrow> image \<Rightarrow> state \<Rightarrow> (error + unit) \<times> state" where
  "image_save H im s =
     (case write_file H (filepath_raw im) (ImageData (im_name im) (file_format im)) (fs s) of
        Inl e \<Rightarrow> (Inl e, s)
      | Inr f \<Rightarrow> (Inr (), s\<lparr>fs := f\<rparr>))"

definition image_save_render :: "env \<Rightarrow> image \<Rightarrow> string \<Rightarrow> state \<Rightarrow> (error + unit) \<times> state" where
  "image_save_render H im fp s =
     (case write_file H fp (ImageData (im_name im) (render_file_format s)) (fs s) of
        Inl e \<Rightarrow> (Inl e, s)
      | Inr f \<Rightarrow> (Inr (), s\<lparr>fs := f\<rparr>))"

text \<open>
  \<^verbatim>\<open>_save_image_as(im, dest, fmt)\<close>. Each branch changes a host setting for the call and
  restores it in its \<^verbatim>\<open>finally\<close>: the image's \<^verbatim>\<open>filepath_raw\<close>, or the render
  settings' file format.
\<close>

definition save_image_as :: "env \<Rightarrow> image \<Rightarrow> string \<Rightarrow> string \<Rightarrow> state \<Rightarrow> (error + unit) \<times> state" where
  "save_image_as H im dest fmt s =
     (if im_source im = ''FILE'' \<and> file_format im = fmt
      then image_save H (im\<lparr>filepath_raw := path s dest\<rparr>) s
      else
        let oldff = render_file_format s;
            r = image_save_render H im (path s dest) (s\<lparr>render_file_format := fmt\<rparr>)
        in (fst r, (snd r)\<lparr>render_file_format := oldff\<rparr>))"

definition IMAGE_FORMATS :: "(string \<times> string) list" where
  "IMAGE_FORMATS =
     [(''BMP'', ''.bmp''), (''PNG'', ''.png''), (''JPEG'', ''.jpg''),
      (''TARGA'', ''.tga''), (''TARGA_RAW'', ''.tga''), (''HDR'', ''.hdr'')]"

text \<open>\<^verbatim>\<open>add_image\<close>.\<close>

definition add_image :: "env \<Rightarrow> image \<Rightarrow> state \<Rightarrow> (error + string) \<times> state" where
  "add_image H im s =
     (case dict_get (images s) (im_name im) of
        Some p \<Rightarrow> (Inr p, s)
      | None \<Rightarrow>
          (case dict_get IMAGE_FORMATS (file_format im) of
             Some ext \<Rightarrow>
               let pth = (case library im of
                            None \<Rightarrow> abspath H (filepath im) None
                          | Some l \<Rightarrow> abspath H (filepath im) (Some l))
               in if pth \<noteq> [] \<and> os_path_exists (fs s) pth \<and> \<not> self_contained s
                  then (case relpath H pth (dir s) of
                          Some p \<Rightarrow> (Inr p, s\<lparr>images := dict_set (images s) (im_name im) p\<rparr>)
                        | None \<Rightarrow> (Inr pth, s\<lparr>images := dict_set (images s) (im_name im) pth\<rparr>))
                  else
                    let dest = im_name im @ ext in
                    (case save_image_as H im dest (file_format im) s of
                       (Inl e, s1) \<Rightarrow> (Inl e, s1)
                     | (Inr u, s1) \<Rightarrow>
                         (Inr dest, s1\<lparr>images := dict_set (images s1) (im_name im) dest\<rparr>))
           | None \<Rightarrow>
               let dest = im_name im @ ''.png'' in
               (case save_image_as H im dest ''PNG'' s of
                  (Inl e, s1) \<Rightarrow> (Inl e, s1)
                | (Inr u, s1) \<Rightarrow>
                    (Inr dest, s1\<lparr>images := dict_set (images s1) (im_name im) dest\<rparr>))))"

subsection \<open>Materials, meshes and objects\<close>

text \<open>
  \<^verbatim>\<open>add_material\<close>. The converter returns the reference fragment and the full record;
  \<^verbatim>\<open>if mat:\<close> holds for a record that is neither \<^verbatim>\<open>None\<close> nor empty.
\<close>

definition add_material :: "env \<Rightarrow> material \<Rightarrow> state \<Rightarrow> (error + dict) \<times> state" where
  "add_material H m s =
     (case dict_get (mats s) (m_name m) of
        Some v \<Rightarrow> (Inr v, s)
      | None \<Rightarrow>
          (case W_PT_material H m s of
             (Inl e, s1) \<Rightarrow> (Inl e, s1)
           | (Inr (obj, mat), s1) \<Rightarrow>
               let s2 = (case mat of
                           None \<Rightarrow> s1
                         | Some r \<Rightarrow>
                             if r \<noteq> []
                             then s1\<lparr>scene := (scene s1)\<lparr>bsdfs := bsdfs (scene s1) @ [r]\<rparr>\<rparr>
                             else s1)
               in (Inr obj, s2\<lparr>mats := dict_set (mats s2) (m_name m) obj\<rparr>)))"

text \<open>\<^verbatim>\<open>add_mesh(scene, o, name=None)\<close>.\<close>

definition add_mesh :: "env \<Rightarrow> host_scene \<Rightarrow> object \<Rightarrow> string option \<Rightarrow> state \<Rightarrow> (error + string) \<times> state" where
  "add_mesh H sc ob name s =
     (let nm = (case name of None \<Rightarrow> o_name ob | Some n \<Rightarrow> n);
          outname = nm @ ''.wo3'';
          fulloutname = path s outname
      in (case write_object_mesh H sc ob fulloutname (fs s) of
            (Inl e, f) \<Rightarrow> (Inl e, s\<lparr>fs := f\<rparr>)
          | (Inr vt, f) \<Rightarrow> (Inr outname, s\<lparr>fs := f\<rparr>)))"

text \<open>
  \<^verbatim>\<open>d[k] += xs\<close> for a key that holds a list; both callers have just stored a list
  under the key.
\<close>

definition extend_key :: "dict \<Rightarrow> string \<Rightarrow> json list \<Rightarrow> dict" where
  "extend_key d k xs =
     (case dict_get d k of Some (JList ys) \<Rightarrow> dict_set d k (JList (ys @ xs)) | _ \<Rightarrow> d)"

text \<open>The loop \<^verbatim>\<open>for v in m: d['transform'] += list(v)\<close>.\<close>

definition add_rows :: "mat4 \<Rightarrow> dict \<Rightarrow> dict" where
  "add_rows m d = fold (\<lambda>v acc. extend_key acc ''transform'' (map JNum (vec_list v))) (mat_rows m) d"

definition geometry_types :: "string list" where
  "geometry_types = [''MESH'', ''CURVE'', ''SURFACE'', ''META'', ''FONT'']"

text \<open>\<^verbatim>\<open>add_object\<close>.\<close>

definition add_object :: "env \<Rightarrow> host_scene \<Rightarrow> object \<Rightarrow> state \<Rightarrow> (error + unit) \<times> state" where
  "add_object H sc ob s =
     (if o_type ob \<notin> set geometry_types then (Inr (), s)
      else
        (case add_mesh H sc ob None s of
           (Inl e, s1) \<Rightarrow> (Inl e, s1)
         | (Inr file, s1) \<Rightarrow>
             (let dat = [(''name'', JStr (o_name ob)), (''type'', JStr ''mesh''),
                         (''smooth'', JBool True), (''file'', JStr file)];
                  dat1 = dict_set dat ''transform'' (JList []);
                  dat2 = add_rows (matrix_world ob) dat1
              in (case material_slots ob of
                    Some m # rest \<Rightarrow>
                      (case add_material H m s1 of
                         (Inl e, s2) \<Rightarrow> (Inl e, s2)
                       | (Inr obj, s2) \<Rightarrow>
                           (Inr (), s2\<lparr>scene := (scene s2)\<lparr>primitives :=
                                      primitives (scene s2) @ [dict_update dat2 obj]\<rparr>\<rparr>))
                  | _ \<Rightarrow>
                      (Inr (), s1\<lparr>scene := (scene s1)\<lparr>primitives :=
                                 primitives (scene s1) @
                                   [dict_set dat2 ''bsdf'' (JStr (default_mat s1))]\<rparr>\<rparr>)))))"

subsection \<open>World, camera and the whole scene\<close>

text \<open>\<^verbatim>\<open>add_world\<close>.\<close>

definition add_world :: "env \<Rightarrow> world_ent \<Rightarrow> state \<Rightarrow> (error + unit) \<times> state" where
  "add_world H w s =
     (case W_PT_world H w s of
        (Inl e, s1) \<Rightarrow> (Inl e, s1)
      | (Inr p, s1) \<Rightarrow>
          (Inr (), s1\<lparr>scene := (scene s1)\<lparr>primitives := primitives (scene s1) @ [p]\<rparr>\<rparr>))"

text \<open>
  \<^verbatim>\<open>add_camera(scene, camera)\<close>. A scene without a camera passes \<^verbatim>\<open>None\<close>, and reading
  its \<^verbatim>\<open>matrix_world\<close> raises.
\<close>

definition camera_transform :: "mat4 \<Rightarrow> mat4" where
  "camera_transform t =
     mat_mul (mat_mul t (Matrix_Scale (- 1) (0, 0, 1))) (Matrix_Scale (- 1) (1, 0, 0))"

definition add_camera :: "env \<Rightarrow> host_scene \<Rightarrow> object option \<Rightarrow> state \<Rightarrow> (error + unit) \<times> state" where
  "add_camera H sc cam s =
     (case cam of
        None \<Rightarrow> (Inl AttributeError, s)
      | Some c \<Rightarrow>
          let transform = camera_transform (matrix_world c);
              scale = float_div H (real_of_int (resolution_percentage (render sc))) 100;
              width = py_int (float_mul H (real_of_int (resolution_x (render sc))) scale);
              height = py_int (float_mul H (real_of_int (resolution_y (render sc))) scale);
              s1 = s\<lparr>scene := (scene s)\<lparr>camera_rec :=
                     [(''transform'', JList []), (''resolution'', JList [JInt width, JInt height])]\<rparr>\<rparr>;
              s2 = s1\<lparr>scene := (scene s1)\<lparr>camera_rec := add_rows transform (camera_rec (scene s1))\<rparr>\<rparr>
          in (case W_PT_camera H c s2 of
                (Inl e, s3) \<Rightarrow> (Inl e, s3)
              | (Inr d, s3) \<Rightarrow>
                  (Inr (), s3\<lparr>scene := (scene s3)\<lparr>camera_rec :=
                             dict_update (camera_rec (scene s3)) d\<rparr>\<rparr>)))"

text \<open>The loop \<^verbatim>\<open>for o in scene.objects.values(): self.add_object(scene, o)\<close>.\<close>

fun add_objects :: "env \<Rightarrow> host_scene \<Rightarrow> object list \<Rightarrow> state \<Rightarrow> (error + unit) \<times> state" where
  "add_objects H sc [] s = (Inr (), s)"
| "add_objects H sc (ob # obs) s =
     (case add_object H sc ob s of
        (Inl e, s1) \<Rightarrow> (Inl e, s1)
      | (Inr u, s1) \<Rightarrow> add_objects H sc obs s1)"

text \<open>\<^verbatim>\<open>add_all\<close>.\<close>

definition add_all :: "env \<Rightarrow> host_scene \<Rightarrow> state \<Rightarrow> (error + unit) \<times> state" where
  "add_all H sc s =
     (case W_PT_renderer H sc s of
        (Inl e, s1) \<Rightarrow> (Inl e, s1)
      | (Inr d, s1) \<Rightarrow>
          (let s1' = s1\<lparr>scene := (scene s1)\<lparr>renderer := dict_update (renderer (scene s1)) d\<rparr>\<rparr>
           in (case W_PT_integrator H sc s1' of
                 (Inl e, s2) \<Rightarrow> (Inl e, s2)
               | (Inr d', s2) \<Rightarrow>
                   (let s2' = s2\<lparr>scene := (scene s2)\<lparr>integrator :=
                                dict_update (integrator (scene s2)) d'\<rparr>\<rparr>
                    in (case (case world sc of
                                None \<Rightarrow> (Inr (), s2')
                              | Some w \<Rightarrow> add_world H w s2') of
                          (Inl e, s3) \<Rightarrow> (Inl e, s3)
                        | (Inr u, s3) \<Rightarrow>
                            (case add_camera H sc (camera sc) s3 of
                               (Inl e, s4) \<Rightarrow> (Inl e, s4)
                             | (Inr u', s4) \<Rightarrow> add_objects H sc (objects sc) s4))))))"

subsection \<open>The export operator\<close>

record operator =
  filepath_prop :: string
  self_contained_prop :: bool
  zip_prop :: bool
  compress_prop :: bool

datatype op_result = CANCELLED | FINISHED

text \<open>
  \<^verbatim>\<open>W_OT_export.execute\<close>, on the file system \<open>f\<close> and with the host's image format
  setting \<open>ff\<close>: the returned status or the exception that escapes, the messages
  reported, and the file system afterwards. The session is a local variable of
  \<^verbatim>\<open>execute\<close>, so its \<^verbatim>\<open>__del__\<close> runs when \<^verbatim>\<open>execute\<close> is left, also by an exception.
\<close>

definition execute ::
  "env \<Rightarrow> operator \<Rightarrow> host_scene \<Rightarrow> fsys \<Rightarrow> string \<Rightarrow> (error + op_result) \<times> (string \<times> string) list \<times> fsys" where
  "execute H op sc f ff =
     (let pth = filepath_prop op in
      if os_path_exists f pth \<and> zip_prop op \<and> \<not> os_path_isfile f pth
      then (Inr CANCELLED, [(''WARNING'', ''Please select a file, not a directory.'')], f)
      else if os_path_exists f pth \<and> \<not> zip_prop op \<and> \<not> os_path_isdir f pth
      then (Inr CANCELLED, [(''WARNING'', ''Please select a directory, not a file.'')], f)
      else if zip_prop op
      then (case init H True (self_contained_prop op) None f ff of
              Inl e \<Rightarrow> (Inl e, [], f)
            | Inr s \<Rightarrow>
                (case add_all H sc s of
                   (Inl e, s1) \<Rightarrow> (Inl e, [], fs (del_scene s1))
                 | (Inr u, s1) \<Rightarrow>
                     (case save H s1 of
                        (Inl e, s2) \<Rightarrow> (Inl e, [], fs (del_scene s2))
                      | (Inr u', s2) \<Rightarrow>
                          (case to_zip H pth (compress_prop op) s2 of
                             (Inl e, s3) \<Rightarrow> (Inl e, [], fs (del_scene s3))
                           | (Inr u'', s3) \<Rightarrow> (Inr FINISHED, [], fs (del_scene s3))))))
      else (case init H False (self_contained_prop op) (Some pth) f ff of
              Inl e \<Rightarrow> (Inl e, [], f)
            | Inr s \<Rightarrow>
                (case add_all H sc s of
                   (Inl e, s1) \<Rightarrow> (Inl e, [], fs (del_scene s1))
                 | (Inr u, s1) \<Rightarrow>
                     (case save H s1 of
                        (Inl e, s2) \<Rightarrow> (Inl e, [], fs (del_scene s2))
                      | (Inr u', s2) \<Rightarrow> (Inr FINISHED, [], fs (del_scene s2))))))"

subsection \<open>Notions used in the statements\<close>

text \<open>The sixteen entries of a matrix, row after row.\<close>

definition flatten :: "mat4 \<Rightarrow> real list" where
  "flatten m = concat (map vec_list (mat_rows m))"

text \<open>
  The fields \<open>add_object\<close> has stored in an object's record when it turns to the
  material: the mesh file is the one \<open>add_mesh\<close> returned.
\<close>

definition object_fields :: "object \<Rightarrow> string \<Rightarrow> dict" where
  "object_fields ob file =
     [(''name'', JStr (o_name ob)), (''type'', JStr ''mesh''), (''smooth'', JBool True),
      (''file'', JStr file), (''transform'', JList (map JNum (flatten (matrix_world ob))))]"

text \<open>
  The record \<open>add_camera\<close> has stored when it calls the camera converter: the transform
  and the resolution.
\<close>

definition camera_fields :: "env \<Rightarrow> host_scene \<Rightarrow> object \<Rightarrow> dict" where
  "camera_fields H sc c =
     [(''transform'', JList (map JNum (flatten (camera_transform (matrix_world c))))),
      (''resolution'',
       JList [JInt (py_int (float_mul H (real_of_int (resolution_x (render sc)))
                      (float_div H (real_of_int (resolution_percentage (render sc))) 100))),
              JInt (py_int (float_mul H (real_of_int (resolution_y (render sc)))
                      (float_div H (real_of_int (resolution_percentage (render sc))) 100)))])]"

text \<open>
  The stages of \<open>add_all\<close>: the two merges of converter output into the document, and
  the world stage, which runs \<open>add_world\<close> when the host scene has a world.
\<close>

definition merge_renderer :: "dict \<Rightarrow> state \<Rightarrow> state" where
  "merge_renderer d s = s\<lparr>scene := (scene s)\<lparr>renderer := dict_update (renderer (scene s)) d\<rparr>\<rparr>"

definition merge_integrator :: "dict \<Rightarrow> state \<Rightarrow> state" where
  "merge_integrator d s = s\<lparr>scene := (scene s)\<lparr>integrator := dict_update (integrator (scene s)) d\<rparr>\<rparr>"

definition world_stage :: "env \<Rightarrow> host_scene \<Rightarrow> state \<Rightarrow> (error + unit) \<times> state" where
  "world_stage H sc s = (case world sc of None \<Rightarrow> (Inr (), s) | Some w \<Rightarrow> add_world H w s)"

text \<open>
  The default-material invariant of a session: the first entry of \<open>bsdfs\<close> is the
  default material, and \<open>default_mat\<close> holds its name. The converters are not defined in
  this file; \<open>converters_keep P H\<close> says that none of the five converters of \<open>H\<close> takes a
  state with \<open>P\<close> to one without.
\<close>

definition session_inv :: "state \<Rightarrow> bool" where
  "session_inv s =
     ((case bsdfs (scene s) of
         [] \<Rightarrow> False
       | b # bs \<Rightarrow> b = [(''name'', JStr ''__default_mat''), (''type'', JStr ''lambert''),
                       (''albedo'', JNum (8 / 10))]) \<and>
      default_mat s = ''__default_mat'')"

definition keeps :: "(state \<Rightarrow> bool) \<Rightarrow> ('a \<Rightarrow> state \<Rightarrow> 'r \<times> state) \<Rightarrow> bool" where
  "keeps P c = (\<forall>x s. P s \<longrightarrow> P (snd (c x s)))"

definition converters_keep :: "(state \<Rightarrow> bool) \<Rightarrow> env \<Rightarrow> bool" where
  "converters_keep P H =
     (keeps P (W_PT_renderer H) \<and> keeps P (W_PT_integrator H) \<and> keeps P (W_PT_world H) \<and>
      keeps P (W_PT_camera H) \<and> keeps P (W_PT_material H))"

text \<open>
  What is taken of the converters where the serialized transforms are concerned: they add
  fields of their own. The camera converter returns no \<^verbatim>\<open>transform\<close> key and leaves the
  \<^verbatim>\<open>transform\<close> entry of the camera record as it is, and the material converter's
  fragment has no \<^verbatim>\<open>transform\<close> key. \<open>plain_cache\<close> says that no fragment in the
  material cache has one.
\<close>

definition no_transform_key :: "dict \<Rightarrow> bool" where
  "no_transform_key d = (dict_get d ''transform'' = None)"

definition plain_cache :: "state \<Rightarrow> bool" where
  "plain_cache s = list_all (\<lambda>kv. no_transform_key (snd kv)) (mats s)"

definition camera_converter_adds :: "env \<Rightarrow> bool" where
  "camera_converter_adds H =
     (\<forall>c s d s'. W_PT_camera H c s = (Inr d, s') \<longrightarrow>
        no_transform_key d \<and>
        dict_get (camera_rec (scene s')) ''transform'' = dict_get (camera_rec (scene s)) ''transform'')"

definition material_converter_adds :: "env \<Rightarrow> bool" where
  "material_converter_adds H =
     (\<forall>m s obj mat s'. W_PT_material H m s = (Inr (obj, mat), s') \<longrightarrow> no_transform_key obj)"

subsection \<open>An example scene\<close>

text \<open>
  A small host scene, converters that touch nothing of the session, and a session over the
  caller's directory \<^verbatim>\<open>/out\<close>, on which the theorems below are instantiated. The
  scene's resolution is 1920 by 1080 at 50 percent: one half and the two halved sizes are
  doubles, so that the float operations do not round there.
\<close>

definition env0 :: env where
  "env0 =
     \<lparr>W_PT_renderer = (\<lambda>sc s. (Inr [(''output_file'', JStr ''render.png''), (''spp'', JInt 32)], s)),
      W_PT_integrator = (\<lambda>sc s. (Inr [(''type'', JStr ''path_tracer'')], s)),
      W_PT_world = (\<lambda>w s. (Inr [(''type'', JStr ''infinite_sphere'')], s)),
      W_PT_camera = (\<lambda>c s. (Inr [(''type'', JStr ''pinhole'')], s)),
      W_PT_material = (\<lambda>m s. (Inr ([(''bsdf'', JStr (m_name m))],
                                     Some [(''name'', JStr (m_name m)), (''type'', JStr ''lambert'')]), s)),
      write_object_mesh = (\<lambda>sc ob p f. (Inr (8, 12), dict_set f p (File (Blob ''wo3'')))),
      abspath = (\<lambda>p l. p),
      relpath = (\<lambda>p start. Some (''..'' @ p)),
      write_fails = (\<lambda>p. False),
      mkdtemp_name = (\<lambda>f. ''/tmp/tmpw''),
      float_div = (\<lambda>x y. x / y),
      float_mul = (\<lambda>x y. x * y)\<rparr>"

definition mat0 :: mat4 where
  "mat0 = ((1, 2, 3, 4), (5, 6, 7, 8), (9, 10, 11, 12), (0, 0, 0, 1))"

definition wood :: material where
  "wood = \<lparr>m_name = ''Wood'', m_ident = 1\<rparr>"

definition lamp0 :: object where
  "lamp0 = \<lparr>o_name = ''Lamp'', o_type = ''LAMP'', matrix_world = mat0, material_slots = []\<rparr>"

definition cube0 :: object where
  "cube0 = \<lparr>o_name = ''Cube'', o_type = ''MESH'', matrix_world = mat0, material_slots = [Some wood]\<rparr>"

definition plane0 :: object where
  "plane0 = \<lparr>o_name = ''Plane'', o_type = ''MESH'', matrix_world = mat0, material_slots = [None]\<rparr>"

definition cam0 :: object where
  "cam0 = \<lparr>o_name = ''Camera'', o_type = ''CAMERA'', matrix_world = mat0, material_slots = []\<rparr>"


definition tex1 :: image where
  "tex1 = \<lparr>im_name = ''noise'', im_ident = 2, im_source = ''GENERATED'', file_format = ''OPEN_EXR'',
            filepath = [], filepath_raw = [], library = None\<rparr>"

definition scene0 :: host_scene where
  "scene0 = \<lparr>world = Some \<lparr>w_name = ''World''\<rparr>, camera = Some cam0,
              objects = [cube0, lamp0, plane0],
              render = \<lparr>resolution_x = 1920, resolution_y = 1080, resolution_percentage = 50\<rparr>\<rparr>"

definition fs0 :: fsys where
  "fs0 = [(''/out'', Dir), (''/tex/wood.jpg'', File (Blob ''jpeg''))]"

definition st0 :: state where
  "st0 =
     \<lparr>dir = ''/out'', clean_on_del = False, self_contained = False,
      scene = \<lparr>media = [], bsdfs = [default_bsdf ''__default_mat''], primitives = [],
                camera_rec = [], integrator = [], renderer = renderer_defaults\<rparr>,
      mats = [], images = [], scenefile = ''/out/scene.json'',
      default_mat = ''__default_mat'', fs = fs0, render_file_format = ''PNG''\<rparr>"

text \<open>A material converter whose fragment carries a key of the object's record.\<close>

definition env_hijack :: env where
  "env_hijack = env0\<lparr>W_PT_material :=
     (\<lambda>m s. (Inr ([(''bsdf'', JStr (m_name m)), (''name'', JStr ''Hijacked'')], None), s))\<rparr>"

text \<open>Two invocations of the operator on a path of the wrong kind.\<close>

definition op_zip :: operator where
  "op_zip = \<lparr>filepath_prop = ''/out'', self_contained_prop = True, zip_prop = True, compress_prop = True\<rparr>"

definition op_dir :: operator where
  "op_dir = \<lparr>filepath_prop = ''/tex/wood.jpg'', self_contained_prop = True, zip_prop = False,
             compress_prop = True\<rparr>"


definition env_fail :: env where
  "env_fail = env0\<lparr>W_PT_material :=
       (\<lambda>m s. if os_path_exists (fs s) ''/tex/wood.jpg'' then W_PT_material env0 m s
               else (Inl (Raised ''missing texture''), s)),
     write_fails := (\<lambda>p. True)\<rparr>"


section \<open>Properties\<close>

subsection \<open>Dictionaries\<close>

lemma map_of_dict_set: "map_of (dict_set d k v) k' = (if k' = k then Some v else map_of d k')"
  by (simp add: dict_set_def update_conv')

lemma dict_get_dict_set: "dict_get (dict_set d k v) k' = (if k' = k then Some v else dict_get d k')"
  by (simp add: dict_get_def map_of_dict_set)

lemma map_of_dict_update_absent:
  "map_of e k = None \<Longrightarrow> map_of (dict_update d e) k = map_of d k"
  unfolding dict_update_def
  by (induction e arbitrary: d) (auto simp: map_of_dict_set split: if_splits)

lemma map_of_dict_update:
  "distinct (map fst e) \<Longrightarrow>
   map_of (dict_update d e) k = (case map_of e k of Some v \<Rightarrow> Some v | None \<Rightarrow> map_of d k)"
  unfolding dict_update_def
proof (induction e arbitrary: d)
  case Nil
  then show ?case by simp
next
  case (Cons a e)
  obtain k' v' where a: "a = (k', v')" by (cases a)
  from Cons.prems a have notin: "map_of e k' = None" and dist: "distinct (map fst e)"
    by (auto simp: map_of_eq_None_iff)
  show ?case
    using Cons.IH [OF dist, of "dict_set d k' v'"] notin
    by (auto simp: a map_of_dict_set split: option.splits)
qed

subsection \<open>Objects without geometry\<close>

text \<open>
  C6. An object whose type is none of MESH, CURVE, SURFACE, META and FONT is skipped:
  \<open>add_object\<close> returns normally and the whole state (document, caches, file system) is
  the one it was called on, whatever the converters and the mesh writer are.
\<close>

theorem add_object_no_geometry:
  "o_type ob \<notin> {''MESH'', ''CURVE'', ''SURFACE'', ''META'', ''FONT''} \<Longrightarrow>
   add_object H sc ob s = (Inr (), s)"
  by (simp add: add_object_def geometry_types_def)

theorem add_object_no_geometry_witness:
  "o_type lamp0 \<notin> {''MESH'', ''CURVE'', ''SURFACE'', ''META'', ''FONT''} \<and>
   add_object env0 scene0 lamp0 st0 = (Inr (), st0)"
proof -
  have t: "o_type lamp0 \<notin> {''MESH'', ''CURVE'', ''SURFACE'', ''META'', ''FONT''}"
    by (simp add: lamp0_def)
  from t add_object_no_geometry [OF t] show ?thesis by simp
qed

subsection \<open>The identity caches\<close>

lemma add_material_cached:
  "dict_get (mats s) (m_name m) = Some v \<Longrightarrow> add_material H m s = (Inr v, s)"
  by (simp add: add_material_def)

lemma add_material_fresh:
  assumes "dict_get (mats s) (m_name m) = None" and "W_PT_material H m s = (Inr (obj, mat), s1)"
  shows "add_material H m s =
           (Inr obj,
            s1\<lparr>scene := (scene s1)\<lparr>bsdfs := bsdfs (scene s1) @
                    (case mat of None \<Rightarrow> [] | Some r \<Rightarrow> if r \<noteq> [] then [r] else [])\<rparr>,
                mats := dict_set (mats s1) (m_name m) obj\<rparr>)"
  using assms by (cases mat) (simp_all add: add_material_def)


lemma add_image_cached:
  "dict_get (images s) (im_name im) = Some p \<Longrightarrow> add_image H im s = (Inr p, s)"
  by (simp add: add_image_def)




subsection \<open>The record of an object\<close>

lemma dict_set_last:
  "map_of d k = None \<Longrightarrow> dict_set (d @ [(k, v)]) k v' = d @ [(k, v')]"
  by (induction d) (auto simp: dict_set_def)

lemma dict_set_new:
  "map_of d k = None \<Longrightarrow> dict_set d k v = d @ [(k, v)]"
  by (induction d) (auto simp: dict_set_def)

lemma extend_key_last:
  assumes "map_of d k = None"
  shows "extend_key (d @ [(k, JList ys)]) k xs = d @ [(k, JList (ys @ xs))]"
proof -
  have "dict_get (d @ [(k, JList ys)]) k = Some (JList ys)"
    using assms by (simp add: dict_get_def map_add_def)
  then show ?thesis
    by (simp add: extend_key_def dict_set_last [OF assms])
qed

lemma add_rows_fresh:
  "map_of d ''transform'' = None \<Longrightarrow>
   add_rows m (dict_set d ''transform'' (JList [])) = d @ [(''transform'', JList (map JNum (flatten m)))]"
proof -
  assume n: "map_of d ''transform'' = None"
  have s: "dict_set d ''transform'' (JList []) = d @ [(''transform'', JList [])]"
    by (rule dict_set_new [OF n])
  obtain r0 r1 r2 r3 where m: "m = (r0, r1, r2, r3)" by (cases m)
  show ?thesis
    by (simp add: s m add_rows_def mat_rows_def flatten_def extend_key_last [OF n])
qed

lemma add_object_dat:
  "add_rows (matrix_world ob)
     (dict_set [(''name'', JStr (o_name ob)), (''type'', JStr ''mesh''),
                (''smooth'', JBool True), (''file'', JStr file)] ''transform'' (JList [])) =
   object_fields ob file"
  by (simp add: add_rows_fresh object_fields_def)

lemma add_object_with_material:
  assumes "o_type ob \<in> set geometry_types"
    and "material_slots ob = Some m # rest"
    and "add_mesh H sc ob None s = (Inr file, s1)"
    and "add_material H m s1 = (Inr obj, s2)"
  shows "add_object H sc ob s =
           (Inr (), s2\<lparr>scene := (scene s2)\<lparr>primitives :=
                      primitives (scene s2) @ [dict_update (object_fields ob file) obj]\<rparr>\<rparr>)"
  using assms by (simp add: add_object_def add_object_dat)

lemma add_object_without_material:
  assumes "o_type ob \<in> set geometry_types"
    and "material_slots ob = [] \<or> (\<exists>rest. material_slots ob = None # rest)"
    and "add_mesh H sc ob None s = (Inr file, s1)"
  shows "add_object H sc ob s =
           (Inr (), s1\<lparr>scene := (scene s1)\<lparr>primitives :=
                      primitives (scene s1) @
                        [dict_set (object_fields ob file) ''bsdf'' (JStr (default_mat s1))]\<rparr>\<rparr>)"
  using assms by (auto simp: add_object_def add_object_dat)

text \<open>
  C10. In \<open>add_object\<close> the material's reference fragment is merged into the object's
  record after the record's own fields (name, type, smooth, file, transform) are set and
  before the record is appended: a key of the fragment takes the fragment's value, also
  when it is one of the record's own keys, and a key the fragment does not have keeps the
  record's field. The fragment is a Python dict, so its keys are distinct.
\<close>

theorem fragment_overwrites_record:
  assumes "o_type ob \<in> {''MESH'', ''CURVE'', ''SURFACE'', ''META'', ''FONT''}"
    and "material_slots ob = Some m # rest"
    and "add_mesh H sc ob None s = (Inr file, s1)"
    and "add_material H m s1 = (Inr obj, s2)"
    and "distinct (map fst obj)"
  shows "\<exists>dat. add_object H sc ob s =
                 (Inr (), s2\<lparr>scene := (scene s2)\<lparr>primitives := primitives (scene s2) @ [dat]\<rparr>\<rparr>) \<and>
               (\<forall>k. dict_get dat k =
                  (case dict_get obj k of
                     Some v \<Rightarrow> Some v
                   | None \<Rightarrow>
                       dict_get [(''name'', JStr (o_name ob)), (''type'', JStr ''mesh''),
                                 (''smooth'', JBool True), (''file'', JStr file),
                                 (''transform'', JList (map JNum (flatten (matrix_world ob))))] k))"
proof -
  from assms(1) have g: "o_type ob \<in> set geometry_types"
    by (simp add: geometry_types_def)
  have "add_object H sc ob s =
          (Inr (), s2\<lparr>scene := (scene s2)\<lparr>primitives :=
                     primitives (scene s2) @ [dict_update (object_fields ob file) obj]\<rparr>\<rparr>)"
    by (rule add_object_with_material [OF g assms(2) assms(3) assms(4)])
  moreover have "\<forall>k. dict_get (dict_update (object_fields ob file) obj) k =
                  (case dict_get obj k of
                     Some v \<Rightarrow> Some v
                   | None \<Rightarrow> dict_get (object_fields ob file) k)"
    unfolding dict_get_def using map_of_dict_update [OF assms(5)] by simp
  ultimately show ?thesis
    unfolding object_fields_def by blast
qed


theorem fragment_overwrites_record_witness:
  "o_type cube0 \<in> {''MESH'', ''CURVE'', ''SURFACE'', ''META'', ''FONT''} \<and>
   material_slots cube0 = Some wood # [] \<and>
   add_mesh env_hijack scene0 cube0 None st0 =
     (Inr ''Cube.wo3'', st0\<lparr>fs := fs0 @ [(''/out/Cube.wo3'', File (Blob ''wo3''))]\<rparr>) \<and>
   add_material env_hijack wood (st0\<lparr>fs := fs0 @ [(''/out/Cube.wo3'', File (Blob ''wo3''))]\<rparr>) =
     (Inr [(''bsdf'', JStr ''Wood''), (''name'', JStr ''Hijacked'')],
      st0\<lparr>fs := fs0 @ [(''/out/Cube.wo3'', File (Blob ''wo3''))],
          mats := [(''Wood'', [(''bsdf'', JStr ''Wood''), (''name'', JStr ''Hijacked'')])]\<rparr>) \<and>
   distinct (map fst [(''bsdf'', JStr ''Wood''), (''name'', JStr ''Hijacked'')]) \<and>
   (\<exists>dat. add_object env_hijack scene0 cube0 st0 =
            (Inr (), st0\<lparr>fs := fs0 @ [(''/out/Cube.wo3'', File (Blob ''wo3''))],
                        mats := [(''Wood'', [(''bsdf'', JStr ''Wood''), (''name'', JStr ''Hijacked'')])],
                        scene := (scene st0)\<lparr>primitives := [dat]\<rparr>\<rparr>) \<and>
          dict_get dat ''name'' = Some (JStr ''Hijacked'') \<and>
          dict_get dat ''bsdf'' = Some (JStr ''Wood'') \<and>
          dict_get dat ''file'' = Some (JStr ''Cube.wo3'') \<and>
          dict_get dat ''smooth'' = Some (JBool True))"
proof -
  let ?frag = "[(''bsdf'', JStr ''Wood''), (''name'', JStr ''Hijacked'')]"
  let ?s1 = "st0\<lparr>fs := fs0 @ [(''/out/Cube.wo3'', File (Blob ''wo3''))]\<rparr>"
  let ?s2 = "?s1\<lparr>mats := [(''Wood'', ?frag)]\<rparr>"
  have h1: "o_type cube0 \<in> {''MESH'', ''CURVE'', ''SURFACE'', ''META'', ''FONT''}"
    by (simp add: cube0_def)
  have h2: "material_slots cube0 = Some wood # []"
    by (simp add: cube0_def)
  have h3: "add_mesh env_hijack scene0 cube0 None st0 = (Inr ''Cube.wo3'', ?s1)"
    by (simp add: add_mesh_def env_hijack_def env0_def cube0_def st0_def fs0_def path_def
        os_path_join_def dict_set_def Let_def)
  have h4: "add_material env_hijack wood ?s1 = (Inr ?frag, ?s2)"
    by (simp add: add_material_def env_hijack_def env0_def wood_def st0_def dict_get_def Let_def
        dict_set_def)
  have h5: "distinct (map fst ?frag)" by simp
  from fragment_overwrites_record [OF h1 h2 h3 h4 h5]
  obtain dat where d: "add_object env_hijack scene0 cube0 st0 =
        (Inr (), ?s2\<lparr>scene := (scene ?s2)\<lparr>primitives := primitives (scene ?s2) @ [dat]\<rparr>\<rparr>)"
    and k: "\<And>k. dict_get dat k =
          (case dict_get ?frag k of
             Some v \<Rightarrow> Some v
           | None \<Rightarrow>
               dict_get [(''name'', JStr (o_name cube0)), (''type'', JStr ''mesh''),
                         (''smooth'', JBool True), (''file'', JStr ''Cube.wo3''),
                         (''transform'', JList (map JNum (flatten (matrix_world cube0))))] k)"
    by blast
  have e: "?s2\<lparr>scene := (scene ?s2)\<lparr>primitives := primitives (scene ?s2) @ [dat]\<rparr>\<rparr> =
           st0\<lparr>fs := fs0 @ [(''/out/Cube.wo3'', File (Blob ''wo3''))],
               mats := [(''Wood'', ?frag)],
               scene := (scene st0)\<lparr>primitives := [dat]\<rparr>\<rparr>"
    by (simp add: st0_def)
  have "dict_get dat ''name'' = Some (JStr ''Hijacked'')"
    and "dict_get dat ''bsdf'' = Some (JStr ''Wood'')"
    and "dict_get dat ''file'' = Some (JStr ''Cube.wo3'')"
    and "dict_get dat ''smooth'' = Some (JBool True)"
    using k [of "''name''"] k [of "''bsdf''"] k [of "''file''"] k [of "''smooth''"]
    unfolding dict_get_def by simp_all
  with d e h1 h2 h3 h4 h5 show ?thesis by auto
qed

subsection \<open>The export operator's path check\<close>

text \<open>
  C7. When the target path exists and is of the wrong kind for the requested mode (a
  directory in archive mode, a file in directory mode), \<open>execute\<close> returns CANCELLED with
  a warning and the file system is the one it was called on: no session is constructed (no
  directory is made) and nothing is written, whatever the converters are.
\<close>

theorem execute_path_conflict:
  assumes "os_path_exists f (filepath_prop op)"
    and "(zip_prop op \<and> os_path_isdir f (filepath_prop op)) \<or>
         (\<not> zip_prop op \<and> os_path_isfile f (filepath_prop op))"
  shows "execute H op sc f ff =
           (Inr CANCELLED,
            [(''WARNING'', if zip_prop op then ''Please select a file, not a directory.''
                           else ''Please select a directory, not a file.'')],
            f)"
proof (cases "zip_prop op")
  case True
  with assms(2) have "os_path_isdir f (filepath_prop op)" by simp
  then have "\<not> os_path_isfile f (filepath_prop op)"
    by (simp add: os_path_isdir_def os_path_isfile_def)
  with True assms(1) show ?thesis by (simp add: execute_def)
next
  case False
  with assms(2) have "os_path_isfile f (filepath_prop op)" by simp
  then have "\<not> os_path_isdir f (filepath_prop op)"
    by (auto simp: os_path_isdir_def os_path_isfile_def)
  with False assms(1) show ?thesis by (simp add: execute_def)
qed

theorem execute_path_conflict_witness:
  "os_path_exists fs0 (filepath_prop op_zip) \<and>
   zip_prop op_zip \<and> os_path_isdir fs0 (filepath_prop op_zip) \<and>
   execute env0 op_zip scene0 fs0 ''PNG'' =
     (Inr CANCELLED, [(''WARNING'', ''Please select a file, not a directory.'')], fs0) \<and>
   os_path_exists fs0 (filepath_prop op_dir) \<and>
   \<not> zip_prop op_dir \<and> os_path_isfile fs0 (filepath_prop op_dir) \<and>
   execute env0 op_dir scene0 fs0 ''PNG'' =
     (Inr CANCELLED, [(''WARNING'', ''Please select a directory, not a file.'')], fs0)"
proof -
  have a1: "os_path_exists fs0 (filepath_prop op_zip)"
    and a2: "zip_prop op_zip \<and> os_path_isdir fs0 (filepath_prop op_zip)"
    by (simp_all add: op_zip_def fs0_def os_path_exists_def os_path_isdir_def)
  have b1: "os_path_exists fs0 (filepath_prop op_dir)"
    and b2: "\<not> zip_prop op_dir \<and> os_path_isfile fs0 (filepath_prop op_dir)"
    by (simp_all add: op_dir_def fs0_def os_path_exists_def os_path_isfile_def)
  from a2 have a3: "(zip_prop op_zip \<and> os_path_isdir fs0 (filepath_prop op_zip)) \<or>
         (\<not> zip_prop op_zip \<and> os_path_isfile fs0 (filepath_prop op_zip))" by simp
  from b2 have b3: "(zip_prop op_dir \<and> os_path_isdir fs0 (filepath_prop op_dir)) \<or>
         (\<not> zip_prop op_dir \<and> os_path_isfile fs0 (filepath_prop op_dir))" by simp
  from execute_path_conflict [OF a1 a3, of env0 scene0 "''PNG''"]
    execute_path_conflict [OF b1 b3, of env0 scene0 "''PNG''"] a1 a2 b1 b2
  show ?thesis by simp
qed

subsection \<open>Teardown\<close>

lemma map_of_filter_fst:
  "map_of (filter (\<lambda>e. P (fst e)) f) p = (if P p then map_of f p else None)"
  by (induction f) auto

lemma init_flag: "init H cod sc pth f ff = Inr s \<Longrightarrow> clean_on_del s = cod"
  by (auto simp: init_def Let_def split: option.splits sum.splits if_splits prod.splits)

text \<open>
  C5, as the code has it. The constructor stores its \<open>clean_on_del\<close> argument, whatever
  the path argument is. On teardown the working directory and everything below it are
  removed, and nothing else, when that flag is set; when the flag is not set, teardown
  changes nothing.
\<close>

theorem teardown_by_flag:
  "(init H cod sc pth f ff = Inr s0 \<longrightarrow> clean_on_del s0 = cod) \<and>
   (\<not> clean_on_del s \<longrightarrow> del_scene s = s) \<and>
   (clean_on_del s \<and> os_path_isdir (fs s) (dir s) \<longrightarrow>
      del_scene s = s\<lparr>fs := fs (del_scene s)\<rparr> \<and>
      (\<forall>p. map_of (fs (del_scene s)) p =
         (if p = dir s \<or> under (dir s) p then None else map_of (fs s) p)))"
proof (intro conjI impI allI)
  assume "init H cod sc pth f ff = Inr s0"
  then show "clean_on_del s0 = cod" by (rule init_flag)
next
  assume "\<not> clean_on_del s"
  then show "del_scene s = s" by (simp add: del_scene_def)
next
  assume "clean_on_del s \<and> os_path_isdir (fs s) (dir s)"
  then show "del_scene s = s\<lparr>fs := fs (del_scene s)\<rparr>" by (simp add: del_scene_def)
next
  fix p
  assume a: "clean_on_del s \<and> os_path_isdir (fs s) (dir s)"
  then have "fs (del_scene s) = filter (\<lambda>e. fst e \<noteq> dir s \<and> \<not> under (dir s) (fst e)) (fs s)"
    by (simp add: del_scene_def rmtree_def)
  then show "map_of (fs (del_scene s)) p =
         (if p = dir s \<or> under (dir s) p then None else map_of (fs s) p)"
    using map_of_filter_fst [of "\<lambda>q. q \<noteq> dir s \<and> \<not> under (dir s) q" "fs s" p] by auto
qed

text \<open>
  The flag does not follow the origin of the directory: a session over the caller's
  directory \<^verbatim>\<open>/out\<close> with the default flag removes it, and a session over a temporary
  directory with the flag cleared leaves the temporary directory behind.
\<close>

lemma ex_init: "init env0 True False (Some ''/out'') fs0 ''PNG'' = Inr (st0\<lparr>clean_on_del := True\<rparr>)"
  by (simp add: init_def st0_def fs0_def os_path_exists_def os_path_join_def Let_def)

lemma ex_init_tmp: "init env0 False False None fs0 ''PNG'' =
   Inr (st0\<lparr>dir := ''/tmp/tmpw'', scenefile := ''/tmp/tmpw/scene.json'', fs := fs0 @ [(''/tmp/tmpw'', Dir)]\<rparr>)"
  by (simp add: init_def st0_def fs0_def os_path_exists_def os_path_join_def Let_def env0_def)

theorem teardown_counterexample:
  "init env0 True False (Some ''/out'') fs0 ''PNG'' = Inr (st0\<lparr>clean_on_del := True\<rparr>) \<and>
   os_path_isdir fs0 ''/out'' \<and>
   \<not> os_path_exists (fs (del_scene (st0\<lparr>clean_on_del := True\<rparr>))) ''/out'' \<and>
   init env0 False False None fs0 ''PNG'' =
     Inr (st0\<lparr>dir := ''/tmp/tmpw'', scenefile := ''/tmp/tmpw/scene.json'',
             fs := fs0 @ [(''/tmp/tmpw'', Dir)]\<rparr>) \<and>
   \<not> os_path_exists fs0 ''/tmp/tmpw'' \<and>
   os_path_isdir
     (fs (del_scene (st0\<lparr>dir := ''/tmp/tmpw'', scenefile := ''/tmp/tmpw/scene.json'',
                         fs := fs0 @ [(''/tmp/tmpw'', Dir)]\<rparr>))) ''/tmp/tmpw''"
  by (simp add: ex_init ex_init_tmp)
    (simp add: st0_def fs0_def del_scene_def rmtree_def os_path_isdir_def os_path_exists_def
      under_def dirsep_def)


theorem teardown_by_flag_witness:
  "init env0 True False (Some ''/out'') fs0 ''PNG'' = Inr (st0\<lparr>clean_on_del := True\<rparr>) \<and>
   clean_on_del (st0\<lparr>clean_on_del := True\<rparr>) = True \<and>
   \<not> clean_on_del st0 \<and> del_scene st0 = st0 \<and>
   clean_on_del (st0\<lparr>clean_on_del := True, fs := fs0 @ [(''/out/scene.json'', File (Blob ''m''))]\<rparr>) \<and>
   os_path_isdir (fs0 @ [(''/out/scene.json'', File (Blob ''m''))]) ''/out'' \<and>
   map_of (fs (del_scene (st0\<lparr>clean_on_del := True,
                               fs := fs0 @ [(''/out/scene.json'', File (Blob ''m''))]\<rparr>))) ''/out'' = None \<and>
   map_of (fs (del_scene (st0\<lparr>clean_on_del := True,
                               fs := fs0 @ [(''/out/scene.json'', File (Blob ''m''))]\<rparr>)))
     ''/out/scene.json'' = None \<and>
   map_of (fs (del_scene (st0\<lparr>clean_on_del := True,
                               fs := fs0 @ [(''/out/scene.json'', File (Blob ''m''))]\<rparr>)))
     ''/tex/wood.jpg'' = Some (File (Blob ''jpeg''))"
proof -
  let ?s = "st0\<lparr>clean_on_del := True, fs := fs0 @ [(''/out/scene.json'', File (Blob ''m''))]\<rparr>"
  have h0: "init env0 True False (Some ''/out'') fs0 ''PNG'' = Inr (st0\<lparr>clean_on_del := True\<rparr>)"
    by (rule ex_init)
  have h1: "\<not> clean_on_del st0" by (simp add: st0_def)
  have h2: "clean_on_del ?s \<and> os_path_isdir (fs ?s) (dir ?s)"
    by (simp add: st0_def fs0_def os_path_isdir_def)
  note A = teardown_by_flag [where H = env0 and cod = True and sc = False and pth = "Some ''/out''"
      and f = fs0 and ff = "''PNG''" and ?s0.0 = "st0\<lparr>clean_on_del := True\<rparr>" and s = st0]
  note B = teardown_by_flag [where s = ?s]
  from A h0 have c0: "clean_on_del (st0\<lparr>clean_on_del := True\<rparr>) = True" by blast
  from A h1 have c1: "del_scene st0 = st0" by blast
  from B h2 have c2: "\<And>p. map_of (fs (del_scene ?s)) p =
         (if p = dir ?s \<or> under (dir ?s) p then None else map_of (fs ?s) p)" by blast
  have u1: "under (dir ?s) ''/out/scene.json''" and u2: "\<not> under (dir ?s) ''/tex/wood.jpg''"
    and d: "dir ?s = ''/out''"
    by (simp_all add: st0_def under_def dirsep_def)
  have c3: "map_of (fs (del_scene ?s)) ''/out'' = None"
    and c4: "map_of (fs (del_scene ?s)) ''/out/scene.json'' = None"
    and c5: "map_of (fs (del_scene ?s)) ''/tex/wood.jpg'' = Some (File (Blob ''jpeg''))"
    using u1 u2 by (simp_all add: c2 d) (simp add: st0_def fs0_def)
  from h0 c0 h1 c1 h2 c3 c4 c5 show ?thesis by (simp add: st0_def)
qed

subsection \<open>Resolving an image\<close>

lemma library_abspath:
  "(case library im of None \<Rightarrow> abspath H (filepath im) None | Some l \<Rightarrow> abspath H (filepath im) (Some l)) =
   abspath H (filepath im) (library im)"
  by (cases "library im") simp_all

lemma compatible_iff:
  "(file_format im \<in> {''BMP'', ''PNG'', ''JPEG'', ''TARGA'', ''TARGA_RAW'', ''HDR''}) =
   (dict_get IMAGE_FORMATS (file_format im) \<noteq> None)"
  by (auto simp: dict_get_def IMAGE_FORMATS_def)

lemma save_image_as_cases:
  "save_image_as H im dest fmt s =
     (if write_fails H (path s dest) then (Inl OSError, s)
      else (Inr (), s\<lparr>fs := dict_set (fs s) (path s dest) (File (ImageData (im_name im) fmt))\<rparr>))"
  by (auto simp: save_image_as_def image_save_def image_save_render_def write_file_def Let_def)

lemma add_image_reference:
  assumes "dict_get (images s) (im_name im) = None"
    and "file_format im \<in> {''BMP'', ''PNG'', ''JPEG'', ''TARGA'', ''TARGA_RAW'', ''HDR''}"
    and "os_path_exists (fs s) (abspath H (filepath im) (library im))"
    and "\<not> self_contained s"
  shows "add_image H im s =
           (Inr (case relpath H (abspath H (filepath im) (library im)) (dir s) of
                   Some r \<Rightarrow> r | None \<Rightarrow> abspath H (filepath im) (library im)),
            s\<lparr>images := dict_set (images s) (im_name im)
                 (case relpath H (abspath H (filepath im) (library im)) (dir s) of
                    Some r \<Rightarrow> r | None \<Rightarrow> abspath H (filepath im) (library im))\<rparr>)"
proof -
  from assms(2) [unfolded compatible_iff]
  obtain ext where e: "dict_get IMAGE_FORMATS (file_format im) = Some ext"
    by blast
  from assms(3) have n: "abspath H (filepath im) (library im) \<noteq> []"
    by (simp add: os_path_exists_def)
  show ?thesis
    using assms(1,3,4) e n
    by (simp add: add_image_def library_abspath Let_def split: option.splits)
qed

lemma add_image_native:
  assumes "dict_get (images s) (im_name im) = None"
    and "dict_get IMAGE_FORMATS (file_format im) = Some ext"
    and "\<not> (os_path_exists (fs s) (abspath H (filepath im) (library im)) \<and> \<not> self_contained s)"
  shows "add_image H im s =
           (if write_fails H (path s (im_name im @ ext)) then (Inl OSError, s)
            else (Inr (im_name im @ ext),
                  s\<lparr>fs := dict_set (fs s) (path s (im_name im @ ext))
                             (File (ImageData (im_name im) (file_format im))),
                    images := dict_set (images s) (im_name im) (im_name im @ ext)\<rparr>))"
  using assms
  by (auto simp: add_image_def library_abspath save_image_as_cases Let_def)

lemma add_image_png:
  assumes "dict_get (images s) (im_name im) = None"
    and "dict_get IMAGE_FORMATS (file_format im) = None"
  shows "add_image H im s =
           (if write_fails H (path s (im_name im @ ''.png'')) then (Inl OSError, s)
            else (Inr (im_name im @ ''.png''),
                  s\<lparr>fs := dict_set (fs s) (path s (im_name im @ ''.png''))
                             (File (ImageData (im_name im) ''PNG'')),
                    images := dict_set (images s) (im_name im) (im_name im @ ''.png'')\<rparr>))"
  using assms
  by (auto simp: add_image_def save_image_as_cases Let_def)

lemma add_image_failure:
  assumes "add_image H im t = (Inl e, t')"
  shows "t' = t \<and> dict_get (images t) (im_name im) = None"
proof -
  from assms have n: "dict_get (images t) (im_name im) = None"
    by (cases "dict_get (images t) (im_name im)") (simp_all add: add_image_def)
  show ?thesis
  proof (cases "dict_get IMAGE_FORMATS (file_format im)")
    case None
    from assms show ?thesis
      unfolding add_image_png [OF n None] using n by (auto split: if_splits)
  next
    case (Some ext)
    show ?thesis
    proof (cases "os_path_exists (fs t) (abspath H (filepath im) (library im)) \<and> \<not> self_contained t")
      case True
      have "file_format im \<in> {''BMP'', ''PNG'', ''JPEG'', ''TARGA'', ''TARGA_RAW'', ''HDR''}"
        by (subst compatible_iff) (simp add: Some)
      from add_image_reference [OF n this] True assms show ?thesis by simp
    next
      case False
      from assms show ?thesis
        unfolding add_image_native [OF n Some False] using n by (auto split: if_splits)
    qed
  qed
qed





subsection \<open>Failures and the caches\<close>

lemma add_material_failure:
  assumes "add_material H m s = (Inl e, s')"
  shows "dict_get (mats s) (m_name m) = None \<and> W_PT_material H m s = (Inl e, s')"
  using assms
  by (auto simp: add_material_def Let_def split: option.splits prod.splits sum.splits)

lemma add_material_raises:
  assumes "dict_get (mats s) (m_name m) = None" and "W_PT_material H m s = (Inl e, s')"
  shows "add_material H m s = (Inl e, s')"
  using assms by (simp add: add_material_def)

lemma add_image_retry:
  assumes "add_image H im t = (Inl e, t')"
  shows "\<exists>p u. add_image (H\<lparr>write_fails := (\<lambda>q. False)\<rparr>) im t = (Inr p, u)"
proof -
  let ?H = "H\<lparr>write_fails := (\<lambda>q. False)\<rparr>"
  from add_image_failure [OF assms] have n: "dict_get (images t) (im_name im) = None" by simp
  show ?thesis
  proof (cases "dict_get IMAGE_FORMATS (file_format im)")
    case None
    show ?thesis unfolding add_image_png [OF n None] by simp
  next
    case (Some ext)
    show ?thesis
    proof (cases "os_path_exists (fs t) (abspath ?H (filepath im) (library im)) \<and> \<not> self_contained t")
      case True
      have "file_format im \<in> {''BMP'', ''PNG'', ''JPEG'', ''TARGA'', ''TARGA_RAW'', ''HDR''}"
        by (subst compatible_iff) (simp add: Some)
      from add_image_reference [OF n this, of ?H] True show ?thesis by blast
    next
      case False
      show ?thesis unfolding add_image_native [OF n Some False] by simp
    qed
  qed
qed

text \<open>
  C9. A failed conversion or export is not recorded. When the material converter raises,
  \<open>add_material\<close> raises the same exception and leaves the state exactly as the
  converter left it, storing nothing; \<open>add_material\<close> fails in no other way. When the name
  is still absent from the cache, a later call (here after the file system has changed)
  runs the converter again and caches its result. When \<open>add_image\<close> fails, the state is
  unchanged, the name is not cached, and the same call in an environment whose writes
  succeed returns a path. A failing write does make \<open>add_image\<close> fail on its writing
  branches.
\<close>

theorem failure_not_cached:
  "(dict_get (mats s) (m_name m) = None \<and> W_PT_material H m s = (Inl e, s') \<longrightarrow>
      add_material H m s = (Inl e, s') \<and>
      (dict_get (mats s') (m_name m) = None \<and>
       W_PT_material H m (s'\<lparr>fs := f\<rparr>) = (Inr (obj, mat), s2) \<longrightarrow>
         add_material H m (s'\<lparr>fs := f\<rparr>) =
           (Inr obj,
            s2\<lparr>scene := (scene s2)\<lparr>bsdfs := bsdfs (scene s2) @
                    (case mat of None \<Rightarrow> [] | Some r \<Rightarrow> if r \<noteq> [] then [r] else [])\<rparr>,
                mats := dict_set (mats s2) (m_name m) obj\<rparr>))) \<and>
   (add_material H m s = (Inl e, s') \<longrightarrow>
      dict_get (mats s) (m_name m) = None \<and> W_PT_material H m s = (Inl e, s')) \<and>
   (add_image H im t = (Inl e', t') \<longrightarrow>
      t' = t \<and> dict_get (images t') (im_name im) = None \<and>
      (\<exists>p u. add_image (H\<lparr>write_fails := (\<lambda>q. False)\<rparr>) im t' = (Inr p, u))) \<and>
   (dict_get (images t) (im_name im) = None \<and>
    (dict_get IMAGE_FORMATS (file_format im) = None \<or> self_contained t \<or>
     \<not> os_path_exists (fs t) (abspath H (filepath im) (library im))) \<and>
    (\<forall>q. write_fails H q) \<longrightarrow>
      add_image H im t = (Inl OSError, t))"
proof (intro conjI impI)
  assume a: "dict_get (mats s) (m_name m) = None \<and> W_PT_material H m s = (Inl e, s')"
  then show "add_material H m s = (Inl e, s')" by (simp add: add_material_raises)
next
  assume "dict_get (mats s') (m_name m) = None \<and>
       W_PT_material H m (s'\<lparr>fs := f\<rparr>) = (Inr (obj, mat), s2)"
  then show "add_material H m (s'\<lparr>fs := f\<rparr>) =
           (Inr obj,
            s2\<lparr>scene := (scene s2)\<lparr>bsdfs := bsdfs (scene s2) @
                    (case mat of None \<Rightarrow> [] | Some r \<Rightarrow> if r \<noteq> [] then [r] else [])\<rparr>,
                mats := dict_set (mats s2) (m_name m) obj\<rparr>)"
    using add_material_fresh [of "s'\<lparr>fs := f\<rparr>" m H obj mat s2] by simp
next
  assume "add_material H m s = (Inl e, s')"
  from add_material_failure [OF this]
  show "dict_get (mats s) (m_name m) = None" and "W_PT_material H m s = (Inl e, s')" by simp_all
next
  assume a: "add_image H im t = (Inl e', t')"
  from add_image_failure [OF a] show "t' = t" and "dict_get (images t') (im_name im) = None"
    by simp_all
  from add_image_failure [OF a] add_image_retry [OF a]
  show "\<exists>p u. add_image (H\<lparr>write_fails := (\<lambda>q. False)\<rparr>) im t' = (Inr p, u)" by simp
next
  assume a: "dict_get (images t) (im_name im) = None \<and>
    (dict_get IMAGE_FORMATS (file_format im) = None \<or> self_contained t \<or>
     \<not> os_path_exists (fs t) (abspath H (filepath im) (library im))) \<and>
    (\<forall>q. write_fails H q)"
  then have n: "dict_get (images t) (im_name im) = None" by blast
  show "add_image H im t = (Inl OSError, t)"
  proof (cases "dict_get IMAGE_FORMATS (file_format im)")
    case None
    from a show ?thesis unfolding add_image_png [OF n None] by simp
  next
    case (Some ext)
    with a have "\<not> (os_path_exists (fs t) (abspath H (filepath im) (library im)) \<and> \<not> self_contained t)"
      by auto
    from add_image_native [OF n Some this] a show ?thesis by simp
  qed
qed


theorem failure_not_cached_witness:
  "dict_get (mats (st0\<lparr>fs := [(''/out'', Dir)]\<rparr>)) (m_name wood) = None \<and>
   W_PT_material env_fail wood (st0\<lparr>fs := [(''/out'', Dir)]\<rparr>) =
     (Inl (Raised ''missing texture''), st0\<lparr>fs := [(''/out'', Dir)]\<rparr>) \<and>
   add_material env_fail wood (st0\<lparr>fs := [(''/out'', Dir)]\<rparr>) =
     (Inl (Raised ''missing texture''), st0\<lparr>fs := [(''/out'', Dir)]\<rparr>) \<and>
   W_PT_material env_fail wood (st0\<lparr>fs := [(''/out'', Dir)], fs := fs0\<rparr>) =
     (Inr ([(''bsdf'', JStr ''Wood'')], Some [(''name'', JStr ''Wood''), (''type'', JStr ''lambert'')]), st0) \<and>
   add_material env_fail wood (st0\<lparr>fs := [(''/out'', Dir)], fs := fs0\<rparr>) =
     (Inr [(''bsdf'', JStr ''Wood'')],
      st0\<lparr>scene := (scene st0)\<lparr>bsdfs := bsdfs (scene st0) @
               [[(''name'', JStr ''Wood''), (''type'', JStr ''lambert'')]]\<rparr>,
          mats := dict_set (mats st0) ''Wood'' [(''bsdf'', JStr ''Wood'')]\<rparr>) \<and>
   dict_get (images st0) (im_name tex1) = None \<and>
   dict_get IMAGE_FORMATS (file_format tex1) = None \<and>
   (\<forall>q. write_fails env_fail q) \<and>
   add_image env_fail tex1 st0 = (Inl OSError, st0) \<and>
   (\<exists>p u. add_image (env_fail\<lparr>write_fails := (\<lambda>q. False)\<rparr>) tex1 st0 = (Inr p, u))"
proof -
  let ?s = "st0\<lparr>fs := [(''/out'', Dir)]\<rparr>"
  let ?frag = "[(''bsdf'', JStr ''Wood'')]"
  let ?rec = "[(''name'', JStr ''Wood''), (''type'', JStr ''lambert'')]"
  have h1: "dict_get (mats ?s) (m_name wood) = None"
    by (simp add: st0_def dict_get_def)
  have h2: "W_PT_material env_fail wood ?s = (Inl (Raised ''missing texture''), ?s)"
    by (simp add: env_fail_def os_path_exists_def)
  have h3: "W_PT_material env_fail wood (?s\<lparr>fs := fs0\<rparr>) = (Inr (?frag, Some ?rec), st0)"
    by (simp add: env_fail_def env0_def os_path_exists_def fs0_def wood_def st0_def)
  have i1: "dict_get (images st0) (im_name tex1) = None"
    by (simp add: st0_def dict_get_def)
  have i2: "dict_get IMAGE_FORMATS (file_format tex1) = None"
    by (simp add: tex1_def IMAGE_FORMATS_def dict_get_def)
  have i3: "\<forall>q. write_fails env_fail q"
    by (simp add: env_fail_def)
  note M = failure_not_cached [where H = env_fail and m = wood and s = ?s
      and e = "Raised ''missing texture''" and s' = ?s and f = fs0 and obj = ?frag
      and mat = "Some ?rec" and ?s2.0 = st0 and im = tex1 and t = st0 and e' = OSError and t' = st0]
  note A = mp [OF M [THEN conjunct1] conjI [OF h1 h2]]
  note a = A [THEN conjunct1]
  from mp [OF A [THEN conjunct2] conjI [OF h1 h3]]
  have b: "add_material env_fail wood (?s\<lparr>fs := fs0\<rparr>) =
      (Inr ?frag,
       st0\<lparr>scene := (scene st0)\<lparr>bsdfs := bsdfs (scene st0) @ [?rec]\<rparr>,
           mats := dict_set (mats st0) ''Wood'' ?frag\<rparr>)"
    by (simp add: wood_def)
  have i4: "dict_get IMAGE_FORMATS (file_format tex1) = None \<or> self_contained st0 \<or>
     \<not> os_path_exists (fs st0) (abspath env_fail (filepath tex1) (library tex1))"
    using i2 by (rule disjI1)
  note c = mp [OF M [THEN conjunct2, THEN conjunct2, THEN conjunct2] conjI [OF i1 conjI [OF i4 i3]]]
  note d = mp [OF M [THEN conjunct2, THEN conjunct2, THEN conjunct1] c,
      THEN conjunct2, THEN conjunct2]
  show ?thesis
    apply (intro conjI)
    apply (rule h1)
    apply (rule h2)
    apply (rule a)
    apply (rule h3)
    apply (rule b)
    apply (rule i1)
    apply (rule i2)
    apply (rule i3)
    apply (rule c)
    apply (rule d)
    done
qed

subsection \<open>Transforms\<close>

lemma Matrix_Scale_z: "Matrix_Scale (- 1) (0, 0, 1) = ((1, 0, 0, 0), (0, 1, 0, 0), (0, 0, - 1, 0), (0, 0, 0, 1))"
  by (simp add: Matrix_Scale_def)

lemma Matrix_Scale_x: "Matrix_Scale (- 1) (1, 0, 0) = ((- 1, 0, 0, 0), (0, 1, 0, 0), (0, 0, 1, 0), (0, 0, 0, 1))"
  by (simp add: Matrix_Scale_def)

lemma camera_transform_entries:
  "camera_transform ((a0, a1, a2, a3), (b0, b1, b2, b3), (c0, c1, c2, c3), (d0, d1, d2, d3)) =
     ((- a0, a1, - a2, a3), (- b0, b1, - b2, b3), (- c0, c1, - c2, c3), (- d0, d1, - d2, d3))"
  by (simp add: camera_transform_def Matrix_Scale_z Matrix_Scale_x mat_mul_def row_mul_def
      mat_col_def dot4_def vec_list_def)

lemma add_rows_camera:
  "add_rows m [(''transform'', JList []), r] = [(''transform'', JList (map JNum (flatten m))), r]"
proof -
  obtain r0 r1 r2 r3 where m: "m = (r0, r1, r2, r3)" by (cases m)
  show ?thesis
    by (simp add: m add_rows_def mat_rows_def flatten_def extend_key_def dict_get_def dict_set_def)
qed

lemma add_camera_unfold:
  "add_camera H sc (Some c) s =
     (case W_PT_camera H c (s\<lparr>scene := (scene s)\<lparr>camera_rec := camera_fields H sc c\<rparr>\<rparr>) of
        (Inl e, s3) \<Rightarrow> (Inl e, s3)
      | (Inr d, s3) \<Rightarrow>
          (Inr (), s3\<lparr>scene := (scene s3)\<lparr>camera_rec := dict_update (camera_rec (scene s3)) d\<rparr>\<rparr>))"
  by (simp add: add_camera_def Let_def add_rows_camera camera_fields_def)


lemma add_camera_merged:
  assumes "W_PT_camera H c (s\<lparr>scene := (scene s)\<lparr>camera_rec := camera_fields H sc c\<rparr>\<rparr>) = (Inr d, s3)"
  shows "add_camera H sc (Some c) s =
           (Inr (), s3\<lparr>scene := (scene s3)\<lparr>camera_rec := dict_update (camera_rec (scene s3)) d\<rparr>\<rparr>)"
  using assms by (simp add: add_camera_unfold)

lemma ex_mesh_cube:
  assumes "write_object_mesh H = write_object_mesh env0"
  shows "add_mesh H scene0 cube0 None st0 =
     (Inr ''Cube.wo3'', st0\<lparr>fs := fs0 @ [(''/out/Cube.wo3'', File (Blob ''wo3''))]\<rparr>)"
  using assms
  by (simp add: add_mesh_def env0_def st0_def fs0_def path_def os_path_join_def dict_set_def
      Let_def cube0_def)

lemma ex_mesh_plane:
  assumes "write_object_mesh H = write_object_mesh env0"
  shows "add_mesh H scene0 plane0 None st0 =
     (Inr ''Plane.wo3'', st0\<lparr>fs := fs0 @ [(''/out/Plane.wo3'', File (Blob ''wo3''))]\<rparr>)"
  using assms
  by (simp add: add_mesh_def env0_def st0_def fs0_def path_def os_path_join_def dict_set_def
      Let_def plane0_def)

subsection \<open>Populating the document\<close>

lemma add_all_stages:
  "add_all H sc s =
     (case W_PT_renderer H sc s of
        (Inl e, s1) \<Rightarrow> (Inl e, s1)
      | (Inr d, s1) \<Rightarrow>
          (case W_PT_integrator H sc (merge_renderer d s1) of
             (Inl e, s2) \<Rightarrow> (Inl e, s2)
           | (Inr d', s2) \<Rightarrow>
               (case world_stage H sc (merge_integrator d' s2) of
                  (Inl e, s3) \<Rightarrow> (Inl e, s3)
                | (Inr u, s3) \<Rightarrow>
                    (case add_camera H sc (camera sc) s3 of
                       (Inl e, s4) \<Rightarrow> (Inl e, s4)
                     | (Inr u', s4) \<Rightarrow> add_objects H sc (objects sc) s4))))"
  by (auto simp: add_all_def merge_renderer_def merge_integrator_def world_stage_def Let_def
      split: prod.splits sum.splits)





subsection \<open>The default material\<close>

lemma session_inv_frame [simp]:
  "session_inv (s\<lparr>fs := f\<rparr>) = session_inv s"
  "session_inv (s\<lparr>images := i\<rparr>) = session_inv s"
  "session_inv (s\<lparr>mats := ms\<rparr>) = session_inv s"
  "session_inv (s\<lparr>render_file_format := r\<rparr>) = session_inv s"
  "session_inv (s\<lparr>scene := (scene s)\<lparr>primitives := ps\<rparr>\<rparr>) = session_inv s"
  "session_inv (s\<lparr>scene := (scene s)\<lparr>camera_rec := cr\<rparr>\<rparr>) = session_inv s"
  "session_inv (s\<lparr>scene := (scene s)\<lparr>renderer := rr\<rparr>\<rparr>) = session_inv s"
  "session_inv (s\<lparr>scene := (scene s)\<lparr>integrator := ir\<rparr>\<rparr>) = session_inv s"
  by (simp_all add: session_inv_def)

lemma session_inv_append:
  "session_inv s \<Longrightarrow> session_inv (s\<lparr>scene := (scene s)\<lparr>bsdfs := bsdfs (scene s) @ rs\<rparr>\<rparr>)"
  by (auto simp: session_inv_def split: list.splits)

lemma keepsD: "keeps P c \<Longrightarrow> P s \<Longrightarrow> c x s = (r, s') \<Longrightarrow> P s'"
  unfolding keeps_def by (metis snd_conv)

lemma inv_init: "init H cod scf pth f ff = Inr s0 \<Longrightarrow> session_inv s0"
  by (auto simp: init_def Let_def session_inv_def default_bsdf_def
      split: option.splits sum.splits if_splits prod.splits)

lemma inv_add_image:
  assumes "session_inv s"
  shows "session_inv (snd (add_image H im s))"
proof (cases "dict_get (images s) (im_name im)")
  case (Some p)
  with assms show ?thesis by (simp add: add_image_cached)
next
  case None
  show ?thesis
  proof (cases "dict_get IMAGE_FORMATS (file_format im)")
    case None': None
    from assms show ?thesis unfolding add_image_png [OF None None'] by simp
  next
    case (Some ext)
    show ?thesis
    proof (cases "os_path_exists (fs s) (abspath H (filepath im) (library im)) \<and> \<not> self_contained s")
      case True
      have "file_format im \<in> {''BMP'', ''PNG'', ''JPEG'', ''TARGA'', ''TARGA_RAW'', ''HDR''}"
        by (subst compatible_iff) (simp add: Some)
      from add_image_reference [OF None this] True assms show ?thesis by simp
    next
      case False
      from assms show ?thesis unfolding add_image_native [OF None Some False] by simp
    qed
  qed
qed

lemma inv_add_material:
  assumes "keeps session_inv (W_PT_material H)" and "session_inv s"
  shows "session_inv (snd (add_material H m s))"
proof (cases "dict_get (mats s) (m_name m)")
  case (Some v)
  with assms(2) show ?thesis by (simp add: add_material_def)
next
  case None
  obtain r s1 where c: "W_PT_material H m s = (r, s1)" by (cases "W_PT_material H m s")
  from keepsD [OF assms c] have i: "session_inv s1" .
  show ?thesis
  proof (cases r)
    case (Inl e)
    with None c i show ?thesis by (simp add: add_material_def)
  next
    case (Inr om)
    obtain obj mat where om: "om = (obj, mat)" by (cases om)
    from add_material_fresh [OF None c [unfolded Inr om]] i
    show ?thesis by (simp add: session_inv_append)
  qed
qed

lemma inv_add_mesh: "session_inv s \<Longrightarrow> session_inv (snd (add_mesh H sc ob nm s))"
  by (auto simp: add_mesh_def Let_def split: prod.splits sum.splits)

lemma inv_add_object:
  assumes "keeps session_inv (W_PT_material H)" and "session_inv s"
  shows "session_inv (snd (add_object H sc ob s))"
proof (cases "o_type ob \<in> set geometry_types")
  case False
  with assms(2) show ?thesis by (simp add: add_object_def)
next
  case True
  obtain r s1 where m: "add_mesh H sc ob None s = (r, s1)" by (cases "add_mesh H sc ob None s")
  from inv_add_mesh [OF assms(2), of H sc ob None] m have i1: "session_inv s1" by simp
  show ?thesis
  proof (cases r)
    case (Inl e)
    with True m i1 show ?thesis by (simp add: add_object_def)
  next
    case (Inr mf)
    show ?thesis
    proof (cases "\<exists>mt rest. material_slots ob = Some mt # rest")
      case False
      then have "material_slots ob = [] \<or> (\<exists>rest. material_slots ob = None # rest)"
        by (cases "material_slots ob") (auto simp: neq_Nil_conv)
      from add_object_without_material [OF True this m [unfolded Inr]] i1
      show ?thesis by simp
    next
      case True': True
      then obtain mt rest where sl: "material_slots ob = Some mt # rest" by blast
      obtain r2 s2 where a: "add_material H mt s1 = (r2, s2)" by (cases "add_material H mt s1")
      from inv_add_material [OF assms(1) i1, of mt] a have i2: "session_inv s2" by simp
      show ?thesis
      proof (cases r2)
        case (Inl e)
        with True m Inr sl a i2 show ?thesis by (simp add: add_object_def)
      next
        case Inr2: (Inr obj)
        from add_object_with_material [OF True sl m [unfolded Inr] a [unfolded Inr2]] i2
        show ?thesis by simp
      qed
    qed
  qed
qed

lemma inv_add_objects:
  assumes "keeps session_inv (W_PT_material H)"
  shows "session_inv s \<Longrightarrow> session_inv (snd (add_objects H sc obs s))"
proof (induction obs arbitrary: s)
  case Nil
  then show ?case by simp
next
  case (Cons ob obs)
  obtain r s1 where a: "add_object H sc ob s = (r, s1)" by (cases "add_object H sc ob s")
  from inv_add_object [OF assms Cons.prems, of sc ob] a have i: "session_inv s1" by simp
  show ?case
  proof (cases r)
    case (Inl e)
    with a i show ?thesis by simp
  next
    case (Inr u)
    with a Cons.IH [OF i] show ?thesis by simp
  qed
qed

lemma inv_add_world:
  assumes "keeps session_inv (W_PT_world H)" and "session_inv s"
  shows "session_inv (snd (add_world H w s))"
proof -
  obtain r s1 where c: "W_PT_world H w s = (r, s1)" by (cases "W_PT_world H w s")
  from keepsD [OF assms c] have "session_inv s1" .
  with c show ?thesis by (cases r) (simp_all add: add_world_def)
qed

lemma inv_add_camera:
  assumes "keeps session_inv (W_PT_camera H)" and "session_inv s"
  shows "session_inv (snd (add_camera H sc cam s))"
proof (cases cam)
  case None
  with assms(2) show ?thesis by (simp add: add_camera_def)
next
  case (Some c)
  let ?s2 = "s\<lparr>scene := (scene s)\<lparr>camera_rec := camera_fields H sc c\<rparr>\<rparr>"
  obtain r s3 where k: "W_PT_camera H c ?s2 = (r, s3)" by (cases "W_PT_camera H c ?s2")
  from assms(2) have "session_inv ?s2" by simp
  from keepsD [OF assms(1) this k] have "session_inv s3" .
  with k Some show ?thesis by (cases r) (simp_all add: add_camera_unfold)
qed

lemma inv_world_stage:
  assumes "keeps session_inv (W_PT_world H)" and "session_inv s"
  shows "session_inv (snd (world_stage H sc s))"
  using assms inv_add_world [OF assms]
  by (cases "world sc") (simp_all add: world_stage_def)

lemma inv_add_all:
  assumes "converters_keep session_inv H" and "session_inv s"
  shows "session_inv (snd (add_all H sc s))"
proof -
  from assms(1) have kr: "keeps session_inv (W_PT_renderer H)"
    and ki: "keeps session_inv (W_PT_integrator H)"
    and kw: "keeps session_inv (W_PT_world H)"
    and kc: "keeps session_inv (W_PT_camera H)"
    and km: "keeps session_inv (W_PT_material H)"
    by (simp_all add: converters_keep_def)
  obtain r1 s1 where a1: "W_PT_renderer H sc s = (r1, s1)" by (cases "W_PT_renderer H sc s")
  from keepsD [OF kr assms(2) a1] have i1: "session_inv s1" .
  show ?thesis
  proof (cases r1)
    case (Inl e)
    with a1 i1 show ?thesis by (simp add: add_all_stages)
  next
    case (Inr d)
    have j1: "session_inv (merge_renderer d s1)" using i1 by (simp add: merge_renderer_def)
    obtain r2 s2 where a2: "W_PT_integrator H sc (merge_renderer d s1) = (r2, s2)"
      by (cases "W_PT_integrator H sc (merge_renderer d s1)")
    from keepsD [OF ki j1 a2] have i2: "session_inv s2" .
    show ?thesis
    proof (cases r2)
      case Inl2: (Inl e)
      with a1 Inr a2 i2 show ?thesis by (simp add: add_all_stages)
    next
      case Inr2: (Inr d')
      have j2: "session_inv (merge_integrator d' s2)" using i2 by (simp add: merge_integrator_def)
      obtain r3 s3 where a3: "world_stage H sc (merge_integrator d' s2) = (r3, s3)"
        by (cases "world_stage H sc (merge_integrator d' s2)")
      from inv_world_stage [OF kw j2, of sc] a3 have i3: "session_inv s3" by simp
      show ?thesis
      proof (cases r3)
        case Inl3: (Inl e)
        with a1 Inr a2 Inr2 a3 i3 show ?thesis by (simp add: add_all_stages)
      next
        case Inr3: (Inr u)
        obtain r4 s4 where a4: "add_camera H sc (camera sc) s3 = (r4, s4)"
          by (cases "add_camera H sc (camera sc) s3")
        from inv_add_camera [OF kc i3, of sc "camera sc"] a4 have i4: "session_inv s4" by simp
        show ?thesis
        proof (cases r4)
          case Inl4: (Inl e)
          with a1 Inr a2 Inr2 a3 Inr3 a4 i4 show ?thesis by (simp add: add_all_stages)
        next
          case Inr4: (Inr u')
          with a1 Inr a2 Inr2 a3 Inr3 a4 inv_add_objects [OF km i4, of sc "objects sc"]
          show ?thesis by (simp add: add_all_stages)
        qed
      qed
    qed
  qed
qed

lemma inv_save: "session_inv s \<Longrightarrow> session_inv (snd (save H s))"
  by (auto simp: save_def write_file_def)

lemma inv_to_zip: "session_inv s \<Longrightarrow> session_inv (snd (to_zip H outp cmp s))"
  by (auto simp: to_zip_def write_file_def)

lemma inv_del: "session_inv s \<Longrightarrow> session_inv (del_scene s)"
  by (auto simp: del_scene_def)


text \<open>
  C2. A new session satisfies the default-material invariant: \<open>bsdfs[0]\<close> is the record
  with name \<^verbatim>\<open>__default_mat\<close>, type \<^verbatim>\<open>lambert\<close> and albedo 0.8. Every operation of
  the session preserves it, given that the converters it calls do: \<open>add_image\<close>,
  \<open>add_material\<close>, \<open>add_mesh\<close>, \<open>add_object\<close>, \<open>add_world\<close>, \<open>add_camera\<close>,
  \<open>add_all\<close>, \<open>save\<close>, \<open>to_zip\<close> and teardown. For an exportable object whose
  material slots are empty or whose slot 0 holds no material, the record \<open>add_object\<close>
  appends has a \<^verbatim>\<open>bsdf\<close> field equal to the name of that default material.
\<close>

theorem default_material_invariant:
  "(init H cod scf pth f ff = Inr s0 \<longrightarrow> session_inv s0) \<and>
   (session_inv s \<longrightarrow>
      bsdfs (scene s) \<noteq> [] \<and>
      bsdfs (scene s) ! 0 =
        [(''name'', JStr ''__default_mat''), (''type'', JStr ''lambert''), (''albedo'', JNum (8 / 10))]) \<and>
   (converters_keep session_inv H \<and> session_inv s \<longrightarrow>
      session_inv (snd (add_image H im s)) \<and>
      session_inv (snd (add_material H m s)) \<and>
      session_inv (snd (add_mesh H sc ob nm s)) \<and>
      session_inv (snd (add_object H sc ob s)) \<and>
      session_inv (snd (add_world H w s)) \<and>
      session_inv (snd (add_camera H sc cam s)) \<and>
      session_inv (snd (add_all H sc s)) \<and>
      session_inv (snd (save H s)) \<and>
      session_inv (snd (to_zip H outp cmp s)) \<and>
      session_inv (del_scene s)) \<and>
   (session_inv s \<and>
    o_type ob \<in> {''MESH'', ''CURVE'', ''SURFACE'', ''META'', ''FONT''} \<and>
    (material_slots ob = [] \<or> (\<exists>rest. material_slots ob = None # rest)) \<and>
    add_mesh H sc ob None s = (Inr mf, s1) \<longrightarrow>
      (\<exists>dat. add_object H sc ob s =
               (Inr (), s1\<lparr>scene := (scene s1)\<lparr>primitives := primitives (scene s1) @ [dat]\<rparr>\<rparr>) \<and>
             dict_get dat ''bsdf'' = dict_get (bsdfs (scene s1) ! 0) ''name'' \<and>
             dict_get dat ''bsdf'' = Some (JStr ''__default_mat'')))"
proof (intro conjI impI)
  assume "init H cod scf pth f ff = Inr s0"
  then show "session_inv s0" by (rule inv_init)
next
  assume "session_inv s"
  then show "bsdfs (scene s) \<noteq> []"
    and "bsdfs (scene s) ! 0 =
        [(''name'', JStr ''__default_mat''), (''type'', JStr ''lambert''), (''albedo'', JNum (8 / 10))]"
    by (auto simp: session_inv_def split: list.splits)
next
  assume a: "converters_keep session_inv H \<and> session_inv s"
  then have i: "session_inv s" and km: "keeps session_inv (W_PT_material H)"
    and kw: "keeps session_inv (W_PT_world H)" and kc: "keeps session_inv (W_PT_camera H)"
    and k: "converters_keep session_inv H"
    by (simp_all add: converters_keep_def)
  show "session_inv (snd (add_image H im s))" by (rule inv_add_image [OF i])
  show "session_inv (snd (add_material H m s))" by (rule inv_add_material [OF km i])
  show "session_inv (snd (add_mesh H sc ob nm s))" by (rule inv_add_mesh [OF i])
  show "session_inv (snd (add_object H sc ob s))" by (rule inv_add_object [OF km i])
  show "session_inv (snd (add_world H w s))" by (rule inv_add_world [OF kw i])
  show "session_inv (snd (add_camera H sc cam s))" by (rule inv_add_camera [OF kc i])
  show "session_inv (snd (add_all H sc s))" by (rule inv_add_all [OF k i])
  show "session_inv (snd (save H s))" by (rule inv_save [OF i])
  show "session_inv (snd (to_zip H outp cmp s))" by (rule inv_to_zip [OF i])
  show "session_inv (del_scene s)" by (rule inv_del [OF i])
next
  assume a: "session_inv s \<and>
    o_type ob \<in> {''MESH'', ''CURVE'', ''SURFACE'', ''META'', ''FONT''} \<and>
    (material_slots ob = [] \<or> (\<exists>rest. material_slots ob = None # rest)) \<and>
    add_mesh H sc ob None s = (Inr mf, s1)"
  then have g: "o_type ob \<in> set geometry_types" by (simp add: geometry_types_def)
  from a have sl: "material_slots ob = [] \<or> (\<exists>rest. material_slots ob = None # rest)"
    and m: "add_mesh H sc ob None s = (Inr mf, s1)" and i: "session_inv s"
    by blast+
  from inv_add_mesh [OF i, of H sc ob None] m have i1: "session_inv s1" by simp
  let ?dat = "dict_set (object_fields ob mf) ''bsdf'' (JStr (default_mat s1))"
  have r: "add_object H sc ob s =
      (Inr (), s1\<lparr>scene := (scene s1)\<lparr>primitives := primitives (scene s1) @ [?dat]\<rparr>\<rparr>)"
    by (rule add_object_without_material [OF g sl m])
  from i1 have d: "dict_get ?dat ''bsdf'' = Some (JStr ''__default_mat'')"
    by (simp add: dict_get_dict_set session_inv_def)
  from i1 have n: "dict_get (bsdfs (scene s1) ! 0) ''name'' = Some (JStr ''__default_mat'')"
    by (auto simp: session_inv_def dict_get_def split: list.splits)
  from r d n show "\<exists>dat. add_object H sc ob s =
               (Inr (), s1\<lparr>scene := (scene s1)\<lparr>primitives := primitives (scene s1) @ [dat]\<rparr>\<rparr>) \<and>
             dict_get dat ''bsdf'' = dict_get (bsdfs (scene s1) ! 0) ''name'' \<and>
             dict_get dat ''bsdf'' = Some (JStr ''__default_mat'')"
    by auto
qed

lemma ex_keeps: "converters_keep P env0"
  by (simp add: converters_keep_def keeps_def env0_def)

lemma ex_inv: "session_inv st0"
  by (simp add: session_inv_def st0_def default_bsdf_def)

theorem default_material_invariant_witness:
  "init env0 True False (Some ''/out'') fs0 ''PNG'' = Inr (st0\<lparr>clean_on_del := True\<rparr>) \<and>
   session_inv (st0\<lparr>clean_on_del := True\<rparr>) \<and>
   converters_keep session_inv env0 \<and> session_inv st0 \<and>
   bsdfs (scene st0) ! 0 =
     [(''name'', JStr ''__default_mat''), (''type'', JStr ''lambert''), (''albedo'', JNum (8 / 10))] \<and>
   session_inv (snd (add_material env0 wood st0)) \<and>
   session_inv (snd (add_object env0 scene0 cube0 st0)) \<and>
   session_inv (snd (add_all env0 scene0 st0)) \<and>
   session_inv (del_scene st0) \<and>
   o_type plane0 \<in> {''MESH'', ''CURVE'', ''SURFACE'', ''META'', ''FONT''} \<and>
   material_slots plane0 = [None] \<and>
   add_mesh env0 scene0 plane0 None st0 =
     (Inr ''Plane.wo3'', st0\<lparr>fs := fs0 @ [(''/out/Plane.wo3'', File (Blob ''wo3''))]\<rparr>) \<and>
   (\<exists>dat. add_object env0 scene0 plane0 st0 =
            (Inr (), st0\<lparr>fs := fs0 @ [(''/out/Plane.wo3'', File (Blob ''wo3''))],
                        scene := (scene st0)\<lparr>primitives := [dat]\<rparr>\<rparr>) \<and>
          dict_get dat ''bsdf'' = Some (JStr ''__default_mat''))"
proof -
  let ?p1 = "st0\<lparr>fs := fs0 @ [(''/out/Plane.wo3'', File (Blob ''wo3''))]\<rparr>"
  note T = default_material_invariant [where H = env0 and cod = True and scf = False
      and pth = "Some ''/out''" and f = fs0 and ff = "''PNG''" and ?s0.0 = "st0\<lparr>clean_on_del := True\<rparr>"
      and s = st0 and sc = scene0]
  note i0 = mp [OF T [THEN conjunct1] ex_init]
  note b0 = mp [OF T [THEN conjunct2, THEN conjunct1] ex_inv, THEN conjunct2]
  have kk: "converters_keep session_inv env0 \<and> session_inv st0"
    using ex_keeps ex_inv by (rule conjI)
  note P = mp [OF T [where m = wood and ob = cube0, THEN conjunct2, THEN conjunct2, THEN conjunct1] kk]
  note p_mat = P [THEN conjunct2, THEN conjunct1]
  note p_obj = P [THEN conjunct2, THEN conjunct2, THEN conjunct2, THEN conjunct1]
  note p_all = P [THEN conjunct2, THEN conjunct2, THEN conjunct2, THEN conjunct2, THEN conjunct2,
      THEN conjunct2, THEN conjunct1]
  note p_del = P [THEN conjunct2, THEN conjunct2, THEN conjunct2, THEN conjunct2, THEN conjunct2,
      THEN conjunct2, THEN conjunct2, THEN conjunct2, THEN conjunct2]
  have g3: "o_type plane0 \<in> {''MESH'', ''CURVE'', ''SURFACE'', ''META'', ''FONT''}"
    and g4: "material_slots plane0 = [None]"
    by (simp_all add: plane0_def)
  have g5: "material_slots plane0 = [] \<or> (\<exists>rest. material_slots plane0 = None # rest)"
    using g4 by simp
  have m2: "add_mesh env0 scene0 plane0 None st0 = (Inr ''Plane.wo3'', ?p1)"
    by (rule ex_mesh_plane) simp
  from mp [OF T [where ob = plane0 and mf = "''Plane.wo3''" and ?s1.0 = ?p1,
        THEN conjunct2, THEN conjunct2, THEN conjunct2]
      conjI [OF ex_inv conjI [OF g3 conjI [OF g5 m2]]]]
  have pl: "\<exists>dat. add_object env0 scene0 plane0 st0 =
            (Inr (), st0\<lparr>fs := fs0 @ [(''/out/Plane.wo3'', File (Blob ''wo3''))],
                        scene := (scene st0)\<lparr>primitives := [dat]\<rparr>\<rparr>) \<and>
          dict_get dat ''bsdf'' = Some (JStr ''__default_mat'')"
    by (auto simp: st0_def)
  show ?thesis
    apply (intro conjI)
    apply (rule ex_init)
    apply (rule i0)
    apply (rule ex_keeps)
    apply (rule ex_inv)
    apply (rule b0)
    apply (rule p_mat)
    apply (rule p_obj)
    apply (rule p_all)
    apply (rule p_del)
    apply (rule g3)
    apply (rule g4)
    apply (rule m2)
    apply (rule pl)
    done
qed

subsection \<open>Serialized transforms\<close>

lemma plain_cache_frame [simp]:
  "plain_cache (s\<lparr>fs := f\<rparr>) = plain_cache s"
  "plain_cache (s\<lparr>images := i\<rparr>) = plain_cache s"
  "plain_cache (s\<lparr>render_file_format := r\<rparr>) = plain_cache s"
  "plain_cache (s\<lparr>scene := sc\<rparr>) = plain_cache s"
  by (simp_all add: plain_cache_def)

lemma list_all_dict_set:
  "list_all P d \<Longrightarrow> P (k, v) \<Longrightarrow> list_all P (dict_set d k v)"
  by (induction d) (auto simp: dict_set_def)

lemma plain_cache_store:
  "plain_cache s \<Longrightarrow> no_transform_key v \<Longrightarrow> plain_cache (s\<lparr>mats := dict_set (mats s) k v\<rparr>)"
  by (simp add: plain_cache_def list_all_dict_set)

lemma plain_cache_lookup:
  "plain_cache s \<Longrightarrow> dict_get (mats s) k = Some v \<Longrightarrow> no_transform_key v"
  unfolding plain_cache_def dict_get_def list_all_iff
  using map_of_SomeD [of "mats s" k v] by fastforce

lemma plain_add_material:
  assumes "material_converter_adds H" and "keeps plain_cache (W_PT_material H)" and "plain_cache s"
  shows "plain_cache (snd (add_material H m s)) \<and>
         (\<forall>obj. fst (add_material H m s) = Inr obj \<longrightarrow> no_transform_key obj)"
proof (cases "dict_get (mats s) (m_name m)")
  case (Some v)
  with plain_cache_lookup [OF assms(3) Some] assms(3) show ?thesis
    by (simp add: add_material_cached)
next
  case None
  obtain r s1 where c: "W_PT_material H m s = (r, s1)" by (cases "W_PT_material H m s")
  from keepsD [OF assms(2,3) c] have q: "plain_cache s1" .
  show ?thesis
  proof (cases r)
    case (Inl e)
    with None c q show ?thesis by (simp add: add_material_def)
  next
    case (Inr om)
    obtain o' mat where om: "om = (o', mat)" by (cases om)
    from assms(1) c Inr om have p: "no_transform_key o'"
      unfolding material_converter_adds_def by blast
    from add_material_fresh [OF None c [unfolded Inr om]] q p
    show ?thesis by (simp add: plain_cache_def list_all_dict_set)
  qed
qed

lemma plain_add_image:
  assumes "plain_cache s"
  shows "plain_cache (snd (add_image H im s))"
proof (cases "dict_get (images s) (im_name im)")
  case (Some p)
  with assms show ?thesis by (simp add: add_image_cached)
next
  case None
  show ?thesis
  proof (cases "dict_get IMAGE_FORMATS (file_format im)")
    case None': None
    from assms show ?thesis unfolding add_image_png [OF None None'] by simp
  next
    case (Some ext)
    show ?thesis
    proof (cases "os_path_exists (fs s) (abspath H (filepath im) (library im)) \<and> \<not> self_contained s")
      case True
      have "file_format im \<in> {''BMP'', ''PNG'', ''JPEG'', ''TARGA'', ''TARGA_RAW'', ''HDR''}"
        by (subst compatible_iff) (simp add: Some)
      from add_image_reference [OF None this] True assms show ?thesis by simp
    next
      case False
      from assms show ?thesis unfolding add_image_native [OF None Some False] by simp
    qed
  qed
qed

lemma plain_add_mesh: "plain_cache s \<Longrightarrow> plain_cache (snd (add_mesh H sc ob nm s))"
  by (auto simp: add_mesh_def Let_def split: prod.splits sum.splits)

lemma plain_add_object:
  assumes "material_converter_adds H" and "keeps plain_cache (W_PT_material H)" and "plain_cache t"
  shows "plain_cache (snd (add_object H sc ob t)) \<and>
         (o_type ob \<in> set geometry_types \<and> fst (add_object H sc ob t) = Inr () \<longrightarrow>
            primitives (scene (snd (add_object H sc ob t))) \<noteq> [] \<and>
            dict_get (last (primitives (scene (snd (add_object H sc ob t))))) ''transform'' =
              Some (JList (map JNum (flatten (matrix_world ob)))))"
proof (cases "o_type ob \<in> set geometry_types")
  case False
  with assms(3) show ?thesis by (simp add: add_object_def)
next
  case True
  obtain r s1 where m: "add_mesh H sc ob None t = (r, s1)" by (cases "add_mesh H sc ob None t")
  from plain_add_mesh [OF assms(3), of H sc ob None] m have p1: "plain_cache s1" by simp
  show ?thesis
  proof (cases r)
    case (Inl e)
    with True m p1 show ?thesis by (simp add: add_object_def)
  next
    case (Inr mf)
    have tr: "dict_get (object_fields ob mf) ''transform'' =
        Some (JList (map JNum (flatten (matrix_world ob))))"
      by (simp add: dict_get_def object_fields_def)
    show ?thesis
    proof (cases "\<exists>mt rest. material_slots ob = Some mt # rest")
      case False
      then have "material_slots ob = [] \<or> (\<exists>rest. material_slots ob = None # rest)"
        by (cases "material_slots ob") (auto simp: neq_Nil_conv)
      from add_object_without_material [OF True this m [unfolded Inr]] p1 tr
      show ?thesis by (simp add: dict_get_dict_set)
    next
      case True': True
      then obtain mt rest where sl: "material_slots ob = Some mt # rest" by blast
      obtain r2 s2 where a: "add_material H mt s1 = (r2, s2)" by (cases "add_material H mt s1")
      from plain_add_material [OF assms(1,2) p1, of mt] a
      have q: "plain_cache s2" and p: "\<And>obj. r2 = Inr obj \<Longrightarrow> no_transform_key obj"
        by simp_all
      show ?thesis
      proof (cases r2)
        case Inl2: (Inl e)
        with True m Inr sl a q show ?thesis by (simp add: add_object_def)
      next
        case Inr2: (Inr obj)
        from p [OF Inr2] have "dict_get (dict_update (object_fields ob mf) obj) ''transform'' =
            dict_get (object_fields ob mf) ''transform''"
          by (simp add: dict_get_def no_transform_key_def map_of_dict_update_absent)
        with add_object_with_material [OF True sl m [unfolded Inr] a [unfolded Inr2]] q tr
        show ?thesis by simp
      qed
    qed
  qed
qed

lemma plain_add_objects:
  assumes "material_converter_adds H" and "keeps plain_cache (W_PT_material H)"
  shows "plain_cache s \<Longrightarrow> plain_cache (snd (add_objects H sc obs s))"
proof (induction obs arbitrary: s)
  case Nil
  then show ?case by simp
next
  case (Cons ob obs)
  obtain r s1 where a: "add_object H sc ob s = (r, s1)" by (cases "add_object H sc ob s")
  from plain_add_object [OF assms Cons.prems, of sc ob] a have i: "plain_cache s1" by simp
  show ?case
  proof (cases r)
    case (Inl e)
    with a i show ?thesis by simp
  next
    case (Inr u)
    with a Cons.IH [OF i] show ?thesis by simp
  qed
qed

lemma plain_add_world:
  assumes "keeps plain_cache (W_PT_world H)" and "plain_cache s"
  shows "plain_cache (snd (add_world H w s))"
proof -
  obtain r s1 where c: "W_PT_world H w s = (r, s1)" by (cases "W_PT_world H w s")
  from keepsD [OF assms c] have "plain_cache s1" .
  with c show ?thesis by (cases r) (simp_all add: add_world_def)
qed

lemma plain_add_camera:
  assumes "keeps plain_cache (W_PT_camera H)" and "plain_cache s"
  shows "plain_cache (snd (add_camera H sc cam s))"
proof (cases cam)
  case None
  with assms(2) show ?thesis by (simp add: add_camera_def)
next
  case (Some c)
  let ?s2 = "s\<lparr>scene := (scene s)\<lparr>camera_rec := camera_fields H sc c\<rparr>\<rparr>"
  obtain r s3 where k: "W_PT_camera H c ?s2 = (r, s3)" by (cases "W_PT_camera H c ?s2")
  from assms(2) have "plain_cache ?s2" by simp
  from keepsD [OF assms(1) this k] have "plain_cache s3" .
  with k Some show ?thesis by (cases r) (simp_all add: add_camera_unfold)
qed

lemma plain_add_all:
  assumes "material_converter_adds H" and "converters_keep plain_cache H" and "plain_cache s"
  shows "plain_cache (snd (add_all H sc s))"
proof -
  from assms(2) have kr: "keeps plain_cache (W_PT_renderer H)"
    and ki: "keeps plain_cache (W_PT_integrator H)"
    and kw: "keeps plain_cache (W_PT_world H)"
    and kc: "keeps plain_cache (W_PT_camera H)"
    and km: "keeps plain_cache (W_PT_material H)"
    by (simp_all add: converters_keep_def)
  obtain r1 s1 where a1: "W_PT_renderer H sc s = (r1, s1)" by (cases "W_PT_renderer H sc s")
  from keepsD [OF kr assms(3) a1] have i1: "plain_cache s1" .
  show ?thesis
  proof (cases r1)
    case (Inl e)
    with a1 i1 show ?thesis by (simp add: add_all_stages)
  next
    case (Inr d)
    have j1: "plain_cache (merge_renderer d s1)" using i1 by (simp add: merge_renderer_def)
    obtain r2 s2 where a2: "W_PT_integrator H sc (merge_renderer d s1) = (r2, s2)"
      by (cases "W_PT_integrator H sc (merge_renderer d s1)")
    from keepsD [OF ki j1 a2] have i2: "plain_cache s2" .
    show ?thesis
    proof (cases r2)
      case Inl2: (Inl e)
      with a1 Inr a2 i2 show ?thesis by (simp add: add_all_stages)
    next
      case Inr2: (Inr d')
      have j2: "plain_cache (merge_integrator d' s2)" using i2 by (simp add: merge_integrator_def)
      obtain r3 s3 where a3: "world_stage H sc (merge_integrator d' s2) = (r3, s3)"
        by (cases "world_stage H sc (merge_integrator d' s2)")
      have i3: "plain_cache s3"
      proof (cases "world sc")
        case None
        with a3 j2 show ?thesis by (simp add: world_stage_def)
      next
        case (Some w)
        with a3 plain_add_world [OF kw j2, of w] show ?thesis by (simp add: world_stage_def)
      qed
      show ?thesis
      proof (cases r3)
        case Inl3: (Inl e)
        with a1 Inr a2 Inr2 a3 i3 show ?thesis by (simp add: add_all_stages)
      next
        case Inr3: (Inr u)
        obtain r4 s4 where a4: "add_camera H sc (camera sc) s3 = (r4, s4)"
          by (cases "add_camera H sc (camera sc) s3")
        from plain_add_camera [OF kc i3, of sc "camera sc"] a4 have i4: "plain_cache s4" by simp
        show ?thesis
        proof (cases r4)
          case Inl4: (Inl e)
          with a1 Inr a2 Inr2 a3 Inr3 a4 i4 show ?thesis by (simp add: add_all_stages)
        next
          case Inr4: (Inr u')
          with a1 Inr a2 Inr2 a3 Inr3 a4 plain_add_objects [OF assms(1) km i4, of sc "objects sc"]
          show ?thesis by (simp add: add_all_stages)
        qed
      qed
    qed
  qed
qed

lemma add_camera_transform:
  assumes "camera_converter_adds H" and "add_camera H sc cam s = (Inr (), s')"
  shows "\<exists>c. cam = Some c \<and>
           dict_get (camera_rec (scene s')) ''transform'' =
             Some (JList (map JNum (flatten (camera_transform (matrix_world c)))))"
proof (cases cam)
  case None
  with assms(2) show ?thesis by (simp add: add_camera_def)
next
  case (Some c)
  let ?s2 = "s\<lparr>scene := (scene s)\<lparr>camera_rec := camera_fields H sc c\<rparr>\<rparr>"
  obtain r s3 where k: "W_PT_camera H c ?s2 = (r, s3)" by (cases "W_PT_camera H c ?s2")
  show ?thesis
  proof (cases r)
    case (Inl e)
    with k Some assms(2) show ?thesis by (simp add: add_camera_unfold)
  next
    case (Inr d)
    from assms(1) k Inr have p: "no_transform_key d"
      and q: "dict_get (camera_rec (scene s3)) ''transform'' =
              dict_get (camera_rec (scene ?s2)) ''transform''"
      unfolding camera_converter_adds_def by blast+
    from add_camera_merged [OF k [unfolded Inr]] assms(2) Some
    have s': "s' = s3\<lparr>scene := (scene s3)\<lparr>camera_rec := dict_update (camera_rec (scene s3)) d\<rparr>\<rparr>"
      by simp
    from p have "dict_get (camera_rec (scene s')) ''transform'' =
        dict_get (camera_rec (scene s3)) ''transform''"
      unfolding s' by (simp add: dict_get_def no_transform_key_def map_of_dict_update_absent)
    also have "\<dots> = Some (JList (map JNum (flatten (camera_transform (matrix_world c)))))"
      unfolding q by (simp add: dict_get_def camera_fields_def)
    finally show ?thesis using Some by simp
  qed
qed

lemma init_plain: "init H cod scf pth f ff = Inr s0 \<Longrightarrow> plain_cache s0"
  by (auto simp: init_def Let_def plain_cache_def split: option.splits sum.splits if_splits prod.splits)

lemma length_flatten: "length (flatten m) = 16"
proof -
  obtain r0 r1 r2 r3 where m: "m = (r0, r1, r2, r3)" by (cases m)
  show ?thesis
    by (cases r0, cases r1, cases r2, cases r3) (simp add: m flatten_def mat_rows_def vec_list_def)
qed


lemma plain_save: "plain_cache s \<Longrightarrow> plain_cache (snd (save H s))"
  by (auto simp: save_def write_file_def)

lemma plain_to_zip: "plain_cache s \<Longrightarrow> plain_cache (snd (to_zip H outp cmp s))"
  by (auto simp: to_zip_def write_file_def)

lemma plain_del: "plain_cache s \<Longrightarrow> plain_cache (del_scene s)"
  by (auto simp: del_scene_def)

text \<open>
  C3. The camera transform \<open>add_camera\<close> serializes is the camera's world transform
  multiplied on the right by the scale of -1 along (0,0,1) and then by the scale of -1
  along (1,0,0), flattened row by row into 16 entries: the first and third entry of every
  row are negated. The transform in the record \<open>add_object\<close> appends is the object's
  world transform, flattened the same way and not changed. The converters, which are not
  in this file, are taken to add fields of their own: the camera converter neither returns
  nor alters a \<^verbatim>\<open>transform\<close> entry, the material converter's fragment has none, and no
  converter puts a fragment that has one into the material cache. The cache then holds no
  such fragment from construction on, through every operation of the session.
\<close>

theorem serialized_transforms:
  "flatten (camera_transform ((a0, a1, a2, a3), (b0, b1, b2, b3), (c0, c1, c2, c3), (d0, d1, d2, d3))) =
     [- a0, a1, - a2, a3, - b0, b1, - b2, b3, - c0, c1, - c2, c3, - d0, d1, - d2, d3] \<and>
   length (flatten mx) = 16 \<and>
   (camera_converter_adds H \<and> add_camera H sc cam s = (Inr (), s') \<longrightarrow>
      (\<exists>c. cam = Some c \<and>
           dict_get (camera_rec (scene s')) ''transform'' =
             Some (JList (map JNum (flatten
               (mat_mul (mat_mul (matrix_world c) (Matrix_Scale (- 1) (0, 0, 1)))
                  (Matrix_Scale (- 1) (1, 0, 0)))))))) \<and>
   (material_converter_adds H \<and> converters_keep plain_cache H \<and> plain_cache t \<and>
    o_type ob \<in> {''MESH'', ''CURVE'', ''SURFACE'', ''META'', ''FONT''} \<and>
    add_object H sc ob t = (Inr (), t') \<longrightarrow>
      primitives (scene t') \<noteq> [] \<and>
      dict_get (last (primitives (scene t'))) ''transform'' =
        Some (JList (map JNum (flatten (matrix_world ob))))) \<and>
   (init H cod scf pth f ff = Inr s0 \<longrightarrow> plain_cache s0) \<and>
   (material_converter_adds H \<and> converters_keep plain_cache H \<and> plain_cache s \<longrightarrow>
      plain_cache (snd (add_image H im s)) \<and>
      plain_cache (snd (add_material H m s)) \<and>
      plain_cache (snd (add_mesh H sc ob nm s)) \<and>
      plain_cache (snd (add_object H sc ob s)) \<and>
      plain_cache (snd (add_world H w s)) \<and>
      plain_cache (snd (add_camera H sc cam s)) \<and>
      plain_cache (snd (add_all H sc s)) \<and>
      plain_cache (snd (save H s)) \<and>
      plain_cache (snd (to_zip H outp cmp s)) \<and>
      plain_cache (del_scene s))"
proof (intro conjI impI)
  show "flatten (camera_transform ((a0, a1, a2, a3), (b0, b1, b2, b3), (c0, c1, c2, c3), (d0, d1, d2, d3))) =
     [- a0, a1, - a2, a3, - b0, b1, - b2, b3, - c0, c1, - c2, c3, - d0, d1, - d2, d3]"
    by (simp add: camera_transform_entries flatten_def mat_rows_def vec_list_def)
next
  show "length (flatten mx) = 16" by (rule length_flatten)
next
  assume "camera_converter_adds H \<and> add_camera H sc cam s = (Inr (), s')"
  then show "\<exists>c. cam = Some c \<and>
           dict_get (camera_rec (scene s')) ''transform'' =
             Some (JList (map JNum (flatten
               (mat_mul (mat_mul (matrix_world c) (Matrix_Scale (- 1) (0, 0, 1)))
                  (Matrix_Scale (- 1) (1, 0, 0))))))"
    using add_camera_transform [of H sc cam s s'] unfolding camera_transform_def by blast
next
  assume a: "material_converter_adds H \<and> converters_keep plain_cache H \<and> plain_cache t \<and>
    o_type ob \<in> {''MESH'', ''CURVE'', ''SURFACE'', ''META'', ''FONT''} \<and>
    add_object H sc ob t = (Inr (), t')"
  then have g: "o_type ob \<in> set geometry_types" and ma: "material_converter_adds H"
    and km: "keeps plain_cache (W_PT_material H)" and p: "plain_cache t"
    and r: "add_object H sc ob t = (Inr (), t')"
    by (simp_all add: geometry_types_def converters_keep_def)
  from plain_add_object [OF ma km p, of sc ob] g r
  show "primitives (scene t') \<noteq> []"
    and "dict_get (last (primitives (scene t'))) ''transform'' =
        Some (JList (map JNum (flatten (matrix_world ob))))"
    by simp_all
next
  assume "init H cod scf pth f ff = Inr s0"
  then show "plain_cache s0" by (rule init_plain)
next
  assume a: "material_converter_adds H \<and> converters_keep plain_cache H \<and> plain_cache s"
  then have ma: "material_converter_adds H" and k: "converters_keep plain_cache H"
    and km: "keeps plain_cache (W_PT_material H)" and kw: "keeps plain_cache (W_PT_world H)"
    and kc: "keeps plain_cache (W_PT_camera H)" and p: "plain_cache s"
    by (simp_all add: converters_keep_def)
  show "plain_cache (snd (add_image H im s))" by (rule plain_add_image [OF p])
  show "plain_cache (snd (add_material H m s))"
    using plain_add_material [OF ma km p] by blast
  show "plain_cache (snd (add_mesh H sc ob nm s))" by (rule plain_add_mesh [OF p])
  show "plain_cache (snd (add_object H sc ob s))"
    using plain_add_object [OF ma km p] by blast
  show "plain_cache (snd (add_world H w s))" by (rule plain_add_world [OF kw p])
  show "plain_cache (snd (add_camera H sc cam s))" by (rule plain_add_camera [OF kc p])
  show "plain_cache (snd (add_all H sc s))" by (rule plain_add_all [OF ma k p])
  show "plain_cache (snd (save H s))" by (rule plain_save [OF p])
  show "plain_cache (snd (to_zip H outp cmp s))" by (rule plain_to_zip [OF p])
  show "plain_cache (del_scene s)" by (rule plain_del [OF p])
qed

lemma ex_camera_adds: "camera_converter_adds env0"
  by (simp add: camera_converter_adds_def env0_def no_transform_key_def dict_get_def)

lemma ex_material_adds: "material_converter_adds env0"
  by (auto simp: material_converter_adds_def env0_def no_transform_key_def dict_get_def)

lemma ex_plain: "plain_cache st0"
  by (simp add: plain_cache_def st0_def)

theorem serialized_transforms_witness:
  "flatten (camera_transform mat0) = [- 1, 2, - 3, 4, - 5, 6, - 7, 8, - 9, 10, - 11, 12, 0, 0, 0, 1] \<and>
   length (flatten mat0) = 16 \<and>
   camera_converter_adds env0 \<and> material_converter_adds env0 \<and>
   converters_keep plain_cache env0 \<and> plain_cache st0 \<and>
   add_camera env0 scene0 (Some cam0) st0 =
     (Inr (), st0\<lparr>scene := (scene st0)\<lparr>camera_rec :=
                dict_update (camera_fields env0 scene0 cam0) [(''type'', JStr ''pinhole'')]\<rparr>\<rparr>) \<and>
   dict_get (dict_update (camera_fields env0 scene0 cam0) [(''type'', JStr ''pinhole'')]) ''transform'' =
     Some (JList (map JNum [- 1, 2, - 3, 4, - 5, 6, - 7, 8, - 9, 10, - 11, 12, 0, 0, 0, 1])) \<and>
   o_type cube0 \<in> {''MESH'', ''CURVE'', ''SURFACE'', ''META'', ''FONT''} \<and>
   fst (add_object env0 scene0 cube0 st0) = Inr () \<and>
   dict_get (last (primitives (scene (snd (add_object env0 scene0 cube0 st0))))) ''transform'' =
     Some (JList (map JNum [1, 2, 3, 4, 5, 6, 7, 8, 9, 10, 11, 12, 0, 0, 0, 1])) \<and>
   o_type plane0 \<in> {''MESH'', ''CURVE'', ''SURFACE'', ''META'', ''FONT''} \<and>
   fst (add_object env0 scene0 plane0 st0) = Inr () \<and>
   dict_get (last (primitives (scene (snd (add_object env0 scene0 plane0 st0))))) ''transform'' =
     Some (JList (map JNum [1, 2, 3, 4, 5, 6, 7, 8, 9, 10, 11, 12, 0, 0, 0, 1])) \<and>
   init env0 True False (Some ''/out'') fs0 ''PNG'' = Inr (st0\<lparr>clean_on_del := True\<rparr>) \<and>
   plain_cache (st0\<lparr>clean_on_del := True\<rparr>) \<and>
   plain_cache (snd (add_all env0 scene0 st0))"
proof -
  let ?frag = "[(''bsdf'', JStr ''Wood'')]"
  let ?rec = "[(''name'', JStr ''Wood''), (''type'', JStr ''lambert'')]"
  let ?dC = "[(''type'', JStr ''pinhole'')]"
  let ?c = "st0\<lparr>scene := (scene st0)\<lparr>camera_rec := camera_fields env0 scene0 cam0\<rparr>\<rparr>"
  let ?sC = "st0\<lparr>scene := (scene st0)\<lparr>camera_rec := dict_update (camera_fields env0 scene0 cam0) ?dC\<rparr>\<rparr>"
  let ?t1 = "st0\<lparr>fs := fs0 @ [(''/out/Cube.wo3'', File (Blob ''wo3''))]\<rparr>"
  let ?t2 = "?t1\<lparr>scene := (scene ?t1)\<lparr>bsdfs := bsdfs (scene ?t1) @ [?rec]\<rparr>, mats := [(''Wood'', ?frag)]\<rparr>"
  let ?tc = "?t2\<lparr>scene := (scene ?t2)\<lparr>primitives :=
      primitives (scene ?t2) @ [dict_update (object_fields cube0 ''Cube.wo3'') ?frag]\<rparr>\<rparr>"
  let ?p1 = "st0\<lparr>fs := fs0 @ [(''/out/Plane.wo3'', File (Blob ''wo3''))]\<rparr>"
  let ?tp = "?p1\<lparr>scene := (scene ?p1)\<lparr>primitives := primitives (scene ?p1) @
      [dict_set (object_fields plane0 ''Plane.wo3'') ''bsdf'' (JStr (default_mat ?p1))]\<rparr>\<rparr>"
  note T = serialized_transforms [where H = env0 and sc = scene0 and mx = mat0
      and ?a0.0 = 1 and ?a1.0 = 2 and ?a2.0 = 3 and ?a3.0 = 4
      and ?b0.0 = 5 and ?b1.0 = 6 and ?b2.0 = 7 and ?b3.0 = 8
      and ?c0.0 = 9 and ?c1.0 = 10 and ?c2.0 = 11 and ?c3.0 = 12
      and ?d0.0 = 0 and ?d1.0 = 0 and ?d2.0 = 0 and ?d3.0 = 1
      and cod = True and scf = False and pth = "Some ''/out''" and f = fs0 and ff = "''PNG''"
      and ?s0.0 = "st0\<lparr>clean_on_del := True\<rparr>" and s = st0 and cam = "Some cam0" and s' = ?sC]
  note TC = T [where ob = cube0 and t = st0 and t' = ?tc]
  note TP = T [where ob = plane0 and t = st0 and t' = ?tp]
  have mc: "matrix_world cam0 = mat0" "matrix_world cube0 = mat0" "matrix_world plane0 = mat0"
    by (simp_all add: cam0_def cube0_def plane0_def)
  have fl: "flatten (camera_transform mat0) =
      [- 1, 2, - 3, 4, - 5, 6, - 7, 8, - 9, 10, - 11, 12, 0, 0, 0, 1]"
    using TC [THEN conjunct1] by (simp add: mat0_def)
  have fm: "flatten mat0 = [1, 2, 3, 4, 5, 6, 7, 8, 9, 10, 11, 12, 0, 0, 0, 1]"
    by (simp add: flatten_def mat0_def mat_rows_def vec_list_def)
  note len = TC [THEN conjunct2, THEN conjunct1]
  have k1: "W_PT_camera env0 cam0 ?c = (Inr ?dC, ?c)"
    by (simp add: env0_def)
  have cam: "add_camera env0 scene0 (Some cam0) st0 = (Inr (), ?sC)"
    using add_camera_merged [OF k1] by simp
  have fl': "flatten (mat_mul (mat_mul (matrix_world cam0) (Matrix_Scale (- 1) (0, 0, 1)))
        (Matrix_Scale (- 1) (1, 0, 0))) =
      [- 1, 2, - 3, 4, - 5, 6, - 7, 8, - 9, 10, - 11, 12, 0, 0, 0, 1]"
    using fl by (simp add: mc camera_transform_def)
  from mp [OF TC [THEN conjunct2, THEN conjunct2, THEN conjunct1] conjI [OF ex_camera_adds cam]]
  have camt: "dict_get (dict_update (camera_fields env0 scene0 cam0) ?dC) ''transform'' =
      Some (JList (map JNum [- 1, 2, - 3, 4, - 5, 6, - 7, 8, - 9, 10, - 11, 12, 0, 0, 0, 1]))"
    by (simp add: fl')
  have g1: "o_type cube0 \<in> {''MESH'', ''CURVE'', ''SURFACE'', ''META'', ''FONT''}"
    and g1': "o_type cube0 \<in> set geometry_types"
    and g2: "material_slots cube0 = Some wood # []"
    and g3: "o_type plane0 \<in> {''MESH'', ''CURVE'', ''SURFACE'', ''META'', ''FONT''}"
    and g3': "o_type plane0 \<in> set geometry_types"
    and g4: "material_slots plane0 = [] \<or> (\<exists>rest. material_slots plane0 = None # rest)"
    by (simp_all add: cube0_def plane0_def geometry_types_def)
  have m1: "add_mesh env0 scene0 cube0 None st0 = (Inr ''Cube.wo3'', ?t1)"
    by (rule ex_mesh_cube) simp
  have m2: "add_mesh env0 scene0 plane0 None st0 = (Inr ''Plane.wo3'', ?p1)"
    by (rule ex_mesh_plane) simp
  have am: "add_material env0 wood ?t1 = (Inr ?frag, ?t2)"
    by (simp add: add_material_def env0_def wood_def st0_def dict_get_def dict_set_def Let_def)
  have oc: "add_object env0 scene0 cube0 st0 = (Inr (), ?tc)"
    by (rule add_object_with_material [OF g1' g2 m1 am])
  have op: "add_object env0 scene0 plane0 st0 = (Inr (), ?tp)"
    by (rule add_object_without_material [OF g3' g4 m2])
  note kp = ex_keeps [of plain_cache]
  from mp [OF TC [THEN conjunct2, THEN conjunct2, THEN conjunct2, THEN conjunct1]
      conjI [OF ex_material_adds conjI [OF kp conjI [OF ex_plain conjI [OF g1 oc]]]]]
  have ct: "dict_get (last (primitives (scene (snd (add_object env0 scene0 cube0 st0))))) ''transform'' =
      Some (JList (map JNum [1, 2, 3, 4, 5, 6, 7, 8, 9, 10, 11, 12, 0, 0, 0, 1]))"
    by (simp add: oc mc fm)
  from mp [OF TP [THEN conjunct2, THEN conjunct2, THEN conjunct2, THEN conjunct1]
      conjI [OF ex_material_adds conjI [OF kp conjI [OF ex_plain conjI [OF g3 op]]]]]
  have pt: "dict_get (last (primitives (scene (snd (add_object env0 scene0 plane0 st0))))) ''transform'' =
      Some (JList (map JNum [1, 2, 3, 4, 5, 6, 7, 8, 9, 10, 11, 12, 0, 0, 0, 1]))"
    by (simp add: op mc fm)
  have oc1: "fst (add_object env0 scene0 cube0 st0) = Inr ()" by (simp add: oc)
  have op1: "fst (add_object env0 scene0 plane0 st0) = Inr ()" by (simp add: op)
  note ip = mp [OF TC [THEN conjunct2, THEN conjunct2, THEN conjunct2, THEN conjunct2, THEN conjunct1]
      ex_init]
  note pres = mp [OF TC [THEN conjunct2, THEN conjunct2, THEN conjunct2, THEN conjunct2, THEN conjunct2]
      conjI [OF ex_material_adds conjI [OF kp ex_plain]]]
  note pall = pres [THEN conjunct2, THEN conjunct2, THEN conjunct2, THEN conjunct2, THEN conjunct2,
      THEN conjunct2, THEN conjunct1]
  show ?thesis
    apply (intro conjI)
    apply (rule fl)
    apply (rule len)
    apply (rule ex_camera_adds)
    apply (rule ex_material_adds)
    apply (rule kp)
    apply (rule ex_plain)
    apply (rule cam)
    apply (rule camt)
    apply (rule g1)
    apply (rule oc1)
    apply (rule ct)
    apply (rule g3)
    apply (rule op1)
    apply (rule pt)
    apply (rule ex_init)
    apply (rule ip)
    apply (rule pall)
    done
qed

end
